theory Spec2Isabelle
  imports Complex_Main "HOL-Library.Monad_Syntax"
begin

section \<open>Numbers\<close>

text \<open>
  A JavaScript number is an IEEE 754 double. A finite double is modelled by the real
  number it denotes, and an arithmetic operation of the source by the exact operation
  followed by \<open>rd\<close>, the rounding to the nearest double, a tie going to the even
  significand. \<open>rd\<close> keeps 53 significant bits, and the fixed spacing \<open>2^-1074\<close> of the
  subnormal doubles below \<open>2^-1022\<close>. Overflow to \<open>Infinity\<close>, the value \<open>NaN\<close> and the
  sign of zero are not modelled: \<open>rd\<close> is rounding in a format whose exponent has no upper
  limit, so the model follows the source as long as its numbers stay below \<open>2^1024\<close>. A
  decimal literal of the source that is no double itself, such as \<open>0.6\<close>, is written
  \<open>rd 0.6\<close>.

  Rounding is followed through the random stream, the attributes and the trait texts,
  the loops that step by a fraction, and the sizes of the recursive pattern. It is not
  followed inside the coordinates, angles and opacities that the drawing routines hand
  to the surface: \<open>Math.sin\<close> and \<open>Math.cos\<close>, which the language leaves to the
  implementation, are the real sine and cosine there, and the arithmetic around them is
  exact.
\<close>

definition round_even :: "real \<Rightarrow> int" where
  \<comment> \<open>the nearest integer, the even one of the two when they are equally near\<close>
  "round_even x =
     (let f = \<lfloor>x\<rfloor>; d = x - of_int f
      in if d < 1 / 2 then f else if 1 / 2 < d then f + 1 else if even f then f else f + 1)"

text \<open>The binary exponent of a positive number \<open>x\<close>: the \<open>k\<close> with \<open>2^k \<le> x < 2^(k+1)\<close>.\<close>

function bexp_up :: "real \<Rightarrow> int" where
  "bexp_up x = (if 2 \<le> x then bexp_up (x / 2) + 1 else 0)"
  by pat_completeness auto
termination
  by (relation "measure (\<lambda>x. nat \<lfloor>x\<rfloor>)") (auto, linarith)

function bexp_dn :: "real \<Rightarrow> int" where
  "bexp_dn x = (if 0 < x \<and> x < 1 then bexp_dn (x * 2) - 1 else 0)"
  by pat_completeness auto
termination
proof (relation "measure (\<lambda>x. nat \<lfloor>1 / x\<rfloor>)")
  show "wf (measure (\<lambda>x. nat \<lfloor>1 / x\<rfloor>))" by simp
next
  fix x :: real
  assume a: "0 < x \<and> x < 1"
  define y where "y = 1 / x"
  have y: "1 < y" using a by (simp add: y_def)
  have "\<lfloor>y / 2\<rfloor> < \<lfloor>y\<rfloor>"
  proof (cases "y < 2")
    case True
    then have "\<lfloor>y / 2\<rfloor> = 0" using y by (simp add: floor_eq_iff)
    moreover have "1 \<le> \<lfloor>y\<rfloor>" using y by (simp add: le_floor_iff)
    ultimately show ?thesis by simp
  next
    case False
    then have "y / 2 \<le> y - 1" by simp
    then have "\<lfloor>y / 2\<rfloor> \<le> \<lfloor>y - 1\<rfloor>" by (rule floor_mono)
    then show ?thesis by simp
  qed
  moreover have "1 / (x * 2) = y / 2" by (simp add: y_def)
  ultimately have lt: "\<lfloor>1 / (x * 2)\<rfloor> < \<lfloor>1 / x\<rfloor>" by (simp only: y_def)
  have "1 \<le> \<lfloor>1 / x\<rfloor>" using y by (simp only: y_def le_floor_iff)
  with lt have "nat \<lfloor>1 / (x * 2)\<rfloor> < nat \<lfloor>1 / x\<rfloor>" by linarith
  then show "(x * 2, x) \<in> measure (\<lambda>x. nat \<lfloor>1 / x\<rfloor>)"
    by (simp only: in_measure)
qed

declare bexp_up.simps [simp del] bexp_dn.simps [simp del]

definition bexp :: "real \<Rightarrow> int" where
  "bexp x = (if 1 \<le> x then bexp_up x else bexp_dn x)"

definition emin :: int where
  \<comment> \<open>the exponent of the smallest positive double\<close>
  "emin = - 1074"

definition rd :: "real \<Rightarrow> real" where
  "rd x =
     (if x = 0 then 0
      else (let q = max (bexp \<bar>x\<bar> - 52) emin
            in of_int (round_even (x / 2 powi q)) * 2 powi q))"

text \<open>The operators \<open>+\<close>, \<open>-\<close>, \<open>*\<close> and \<open>/\<close> on doubles.\<close>

definition jadd :: "real \<Rightarrow> real \<Rightarrow> real" where
  "jadd x y = rd (x + y)"

definition jsub :: "real \<Rightarrow> real \<Rightarrow> real" where
  "jsub x y = rd (x - y)"

definition jmul :: "real \<Rightarrow> real \<Rightarrow> real" where
  "jmul x y = rd (x * y)"

definition jdiv :: "real \<Rightarrow> real \<Rightarrow> real" where
  "jdiv x y = rd (x / y)"

section \<open>The seeded random stream\<close>

text \<open>
  The state of the generator is a natural number: a seed is a non-negative integer (the
  page supplies 0 to 999999), and every later state is the remainder of an integer,
  below \<open>2^32\<close>. The product and the sum of \<open>next\<close> are rounded; the remainder \<open>%\<close> of two
  doubles is exact.
\<close>

datatype SeededRandom = SeededRandom (seed: nat)

definition next_rng :: "SeededRandom \<Rightarrow> real \<times> SeededRandom" where
  "next_rng r =
     (let x = jadd (jmul (real (seed r)) 1664525) 1013904223;
          s = nat \<lfloor>x\<rfloor> mod 4294967296
      in (jdiv (real s) 4294967296, SeededRandom s))"

text \<open>\<open>range(min, max)\<close>; the second argument is \<open>None\<close> when the caller leaves it out.\<close>

definition range_rng :: "real \<Rightarrow> real option \<Rightarrow> SeededRandom \<Rightarrow> real \<times> SeededRandom" where
  "range_rng mn mx r =
     (let (lo, hi) = (case mx of None \<Rightarrow> (0, mn) | Some m \<Rightarrow> (mn, m));
          (v, r') = next_rng r
      in (jadd lo (jmul v (jsub hi lo)), r'))"

definition int_rng :: "real \<Rightarrow> real \<Rightarrow> SeededRandom \<Rightarrow> int \<times> SeededRandom" where
  "int_rng mn mx r = (let (x, r') = range_rng mn (Some (jadd mx 1)) r in (\<lfloor>x\<rfloor>, r'))"

text \<open>Reading an array outside its bounds gives \<open>undefined\<close>, here \<open>None\<close>.\<close>

definition js_index :: "'a list \<Rightarrow> int \<Rightarrow> 'a option" where
  "js_index xs i = (if 0 \<le> i \<and> i < int (length xs) then Some (xs ! nat i) else None)"

definition choice :: "'a list \<Rightarrow> SeededRandom \<Rightarrow> 'a option \<times> SeededRandom" where
  "choice array r =
     (let (i, r') = int_rng 0 (jsub (real (length array)) 1) r in (js_index array i, r'))"

definition boolean :: "real option \<Rightarrow> SeededRandom \<Rightarrow> bool \<times> SeededRandom" where
  "boolean probability r =
     (let p = (case probability of None \<Rightarrow> 0.5 | Some q \<Rightarrow> q);
          (v, r') = next_rng r
      in (v < p, r'))"

section \<open>Numbers as text\<close>

definition js_round :: "real \<Rightarrow> int" where
  \<comment> \<open>\<open>Math.round\<close>: the nearest integer, a half rounded up.\<close>
  "js_round x = \<lfloor>x + 1 / 2\<rfloor>"

definition digit_char :: "nat \<Rightarrow> char" where
  "digit_char n = ''0123456789'' ! (n mod 10)"

fun show_nat :: "nat \<Rightarrow> string" where
  "show_nat n = (if n < 10 then [digit_char n] else show_nat (n div 10) @ [digit_char n])"

declare show_nat.simps [simp del]

definition show_tenths :: "nat \<Rightarrow> string" where
  \<comment> \<open>the shortest decimal text of \<open>m / 10\<close>, as a template literal prints it\<close>
  "show_tenths m =
     show_nat (m div 10) @ (if m mod 10 = 0 then [] else ''.'' @ [digit_char m])"

definition str_of_tenths :: "real \<Rightarrow> string" where
  \<comment> \<open>number to text, for the double nearest to a whole number \<open>m\<close> of tenths: the
      only numbers that \<open>generateMetadata\<close> prints without \<open>toFixed\<close>. The shortest
      decimal that reads back as that double is the decimal of \<open>m / 10\<close> (for the sizes
      that \<open>generateProperties\<close> draws, \<open>m\<close> is between 0 and 10).\<close>
  "str_of_tenths x =
     (let m = \<lfloor>x * 10 + 1 / 2\<rfloor>
      in if m < 0 then ''-'' @ show_tenths (nat (- m)) else show_tenths (nat m))"

definition toFixed1 :: "real \<Rightarrow> string" where
  \<comment> \<open>\<open>x.toFixed(1)\<close>: the number of tenths nearest to the exact value of the double,
      the larger one on a tie, always with its one decimal\<close>
  "toFixed1 x =
     (let a = \<bar>x\<bar>; n = nat \<lfloor>a * 10 + 1 / 2\<rfloor>
      in (if x < 0 then ''-'' else []) @ show_nat (n div 10) @ ''.'' @ [digit_char n])"

definition js_lookup :: "(string \<times> string) list \<Rightarrow> string \<Rightarrow> string" where
  \<comment> \<open>a property read inside a template literal: a missing key prints as \<open>undefined\<close>.
      The keys read are attributes that \<open>choice\<close> took from a literal array; a key that
      an object inherits from its prototype, such as \<open>toString\<close>, is none of them and is
      not modelled.\<close>
  "js_lookup table k = (case map_of table k of None \<Rightarrow> ''undefined'' | Some v \<Rightarrow> v)"

fun join :: "string \<Rightarrow> string list \<Rightarrow> string" where
  "join sep [] = []"
| "join sep [x] = x"
| "join sep (x # y # ys) = x @ sep @ join sep (y # ys)"

section \<open>The eyeball and its attributes\<close>

type_synonym color = "real \<times> real \<times> real"

record Trait =
  name :: string
  "value" :: string

record Metadata =
  traits :: "Trait list"

record Eyeball =
  w :: real
  h :: real
  centerX :: real
  centerY :: real
  seed :: nat
  rng :: SeededRandom
  socketShape :: string
  socketSize :: real
  socketColor :: color
  scleraColor :: color
  scleraTexture :: string
  irisSize :: real
  irisShape :: string
  irisColor1 :: color
  irisColor2 :: color
  irisPattern :: string
  pupilSize :: real
  pupilShape :: string
  pupilColor :: color
  hasGlow :: bool
  hasLaser :: bool
  hasAura :: bool
  hasParticles :: bool
  hasLightning :: bool
  animationEnergy :: real
  effectColor :: color
  laserColor :: color
  auraColor :: color
  style :: string
  intensity :: real
  metadata :: Metadata
  "time" :: real
  animationSpeed :: real

definition colorPalettes :: "(string \<times> color list) list" where
  "colorPalettes =
    [(''socket'',
        [(20, 20, 30), (40, 0, 60), (60, 20, 0), (0, 30, 50),
         (80, 80, 80), (30, 30, 30), (10, 50, 30)]),
     (''sclera'',
        [(255, 255, 255), (240, 240, 255), (255, 240, 240), (200, 255, 200),
         (50, 50, 60), (100, 100, 120), (80, 80, 100), (255, 200, 150)]),
     (''iris'',
        [(0, 150, 255), (255, 0, 150), (150, 255, 0), (255, 150, 0),
         (200, 0, 200), (0, 255, 200), (255, 255, 0), (150, 0, 255),
         (255, 100, 100), (100, 255, 100), (100, 100, 255), (255, 0, 0),
         (0, 255, 0), (0, 0, 255), (255, 255, 255), (50, 255, 150)]),
     (''pupil'',
        [(0, 0, 0), (20, 0, 40), (40, 0, 0), (0, 20, 40),
         (255, 255, 255), (255, 0, 0), (0, 255, 255), (255, 255, 0)]),
     (''effect'',
        [(255, 0, 255), (0, 255, 255), (255, 255, 0), (255, 100, 0),
         (100, 255, 100), (255, 50, 150), (150, 100, 255), (255, 200, 0)]),
     (''laser'',
        [(255, 0, 0), (0, 255, 0), (0, 100, 255), (255, 0, 255),
         (255, 255, 0), (255, 100, 0), (100, 255, 255)]),
     (''aura'',
        [(100, 0, 255), (255, 0, 100), (0, 255, 100), (255, 200, 0),
         (0, 200, 255), (255, 0, 200), (200, 255, 0)])]"

definition constrain :: "real \<Rightarrow> real \<Rightarrow> real \<Rightarrow> real" where
  "constrain val mn mx = min mx (max mn val)"

text \<open>
  Every array handed to \<open>choice\<close> below is a non-empty literal, so the element read is
  never \<open>undefined\<close> (lemma \<open>choice_defined\<close>) and \<open>the\<close> takes it out of its option.
  \<open>generateColor\<close> is called with the seven names of the table only; any other name
  falls back to the iris palette (a name inherited from the prototype of the table is
  not modelled).
\<close>

definition generateColor :: "string \<Rightarrow> Eyeball \<Rightarrow> color \<times> Eyeball" where
  "generateColor type e =
     (let palette = (case map_of colorPalettes type of
                       Some pal \<Rightarrow> pal
                     | None \<Rightarrow> the (map_of colorPalettes ''iris''));
          (baseColor, r) = choice palette (rng e);
          (b0, b1, b2) = the baseColor;
          (j0, r) = range_rng (- 30) (Some 30) r;
          (j1, r) = range_rng (- 30) (Some 30) r;
          (j2, r) = range_rng (- 30) (Some 30) r
      in ((constrain (jadd b0 j0) 0 255, constrain (jadd b1 j1) 0 255,
           constrain (jadd b2 j2) 0 255),
          e\<lparr>rng := r\<rparr>))"

definition getColorName :: "color \<Rightarrow> string" where
  "getColorName rgb =
     (let (r, g, b) = rgb
      in if r > 200 \<and> g > 200 \<and> b > 200 then ''Ivory''
         else if r < 50 \<and> g < 50 \<and> b < 50 then ''Obsidian''
         else if r > 200 \<and> g < 100 \<and> b < 100 then ''Crimson''
         else if r < 100 \<and> g > 200 \<and> b < 100 then ''Emerald''
         else if r < 100 \<and> g < 100 \<and> b > 200 then ''Sapphire''
         else if r > 200 \<and> g > 200 \<and> b < 100 then ''Golden''
         else if r > 200 \<and> g < 100 \<and> b > 200 then ''Amethyst''
         else if r < 100 \<and> g > 200 \<and> b > 200 then ''Turquoise''
         else if r > 150 \<and> g > 100 \<and> b < 100 then ''Copper''
         else if r > 100 \<and> g > 150 \<and> b < 100 then ''Jade''
         else if r < 100 \<and> g > 100 \<and> b > 150 then ''Azure''
         else if r > 150 \<and> g < 100 \<and> b > 100 then ''Rose''
         else if r > 100 \<and> g < 100 \<and> b > 150 then ''Violet''
         else if r > 100 \<and> g > 100 \<and> b > 100 then ''Silver''
         else if r > 150 then ''Ruby''
         else if g > 150 then ''Verdant''
         else if b > 150 then ''Cobalt''
         else ''Mystic'')"

definition portalTypes :: "(string \<times> string) list" where
  "portalTypes =
    [(''circle'', ''Eternal Circle''), (''oval'', ''Mystic Oval''),
     (''diamond'', ''Crystal Diamond''), (''almond'', ''Ancient Almond''),
     (''star'', ''Stellar Gateway''), (''hexagon'', ''Sacred Hexagon'')]"

definition scleraNames :: "(string \<times> string) list" where
  "scleraNames =
    [(''smooth'', ''Pure Essence''), (''veined'', ''Bloodbound Veins''),
     (''cloudy'', ''Ethereal Mist''), (''metallic'', ''Liquid Metal''),
     (''crystalline'', ''Crystal Matrix'')]"

definition irisPatterns :: "(string \<times> string) list" where
  "irisPatterns =
    [(''solid'', ''Void Core''), (''radial'', ''Stellar Burst''),
     (''spiral'', ''Cosmic Spiral''), (''geometric'', ''Sacred Geometry''),
     (''fractal'', ''Infinite Fractal''), (''crystalline'', ''Crystal Lattice''),
     (''void'', ''Abyssal Void'')]"

definition pupilTypes :: "(string \<times> string) list" where
  "pupilTypes =
    [(''circle'', ''Eternal Portal''), (''slit'', ''Dragon Slit''),
     (''star'', ''Celestial Star''), (''cross'', ''Divine Cross''),
     (''diamond'', ''Soul Diamond''), (''multiple'', ''Trinity Gates''),
     (''void'', ''Chaos Void'')]"

definition essenceTypes :: "(string \<times> string) list" where
  "essenceTypes =
    [(''organic'', ''Living Essence''), (''mechanical'', ''Cyber Matrix''),
     (''cosmic'', ''Stellar Origin''), (''demonic'', ''Infernal Soul''),
     (''angelic'', ''Divine Light''), (''digital'', ''Data Stream''),
     (''crystal'', ''Crystal Core'')]"

definition push_trait :: "Trait \<Rightarrow> Eyeball \<Rightarrow> Eyeball" where
  \<comment> \<open>\<open>this.metadata.traits.push(t)\<close>\<close>
  "push_trait t e = e\<lparr>metadata := (metadata e)\<lparr>traits := traits (metadata e) @ [t]\<rparr>\<rparr>"

definition powers_of :: "Eyeball \<Rightarrow> string list" where
  \<comment> \<open>the array \<open>powers\<close> after its five conditional pushes\<close>
  "powers_of e =
     (if hasGlow e then [''Ethereal Glow''] else []) @
     (if hasLaser e then [''Laser Beam''] else []) @
     (if hasAura e then [''Energy Aura''] else []) @
     (if hasParticles e then [''Particle Storm''] else []) @
     (if hasLightning e then [''Lightning Strike''] else [])"

text \<open>
  \<open>generateMetadata\<close> pushes six traits, one block of statements for each; the blocks
  are the six definitions that follow, in the order of the source.
\<close>

definition trait_portalFrame :: "Eyeball \<Rightarrow> Eyeball" where
  "trait_portalFrame e =
     (let portalRarity =
            jdiv (real_of_int (js_round
              (jmul (jdiv (jsub (socketSize e) 80) (jsub 140 80)) 10))) 10
      in push_trait
           \<lparr>name = ''Portal Frame'',
            value = js_lookup portalTypes (socketShape e) @ '' ('' @
                    str_of_tenths portalRarity @ '')''\<rparr> e)"

definition trait_scleraEssence :: "Eyeball \<Rightarrow> Eyeball" where
  "trait_scleraEssence e =
     (let scleraColorName = getColorName (scleraColor e);
          (x, r) = range_rng 1 (Some 10) (rng e);
          e = e\<lparr>rng := r\<rparr>
      in push_trait
           \<lparr>name = ''Sclera Essence'',
            value = scleraColorName @ '' '' @ js_lookup scleraNames (scleraTexture e) @
                    '' ('' @ toFixed1 x @ '')''\<rparr> e)"

definition trait_irisConstellation :: "Eyeball \<Rightarrow> Eyeball" where
  "trait_irisConstellation e =
     (let irisRarity = jdiv (real_of_int (js_round
                         (jmul (jdiv (jsub (irisSize e) 40) (jsub 80 40)) 10))) 10;
          irisColorName = getColorName (irisColor1 e)
      in push_trait
           \<lparr>name = ''Iris Constellation'',
            value = irisColorName @ '' '' @ js_lookup irisPatterns (irisPattern e) @
                    '' ('' @ str_of_tenths irisRarity @ '')''\<rparr> e)"

definition trait_pupilGate :: "Eyeball \<Rightarrow> Eyeball" where
  "trait_pupilGate e =
     (let pupilRarity = jdiv (real_of_int (js_round
                          (jmul (jdiv (jsub (pupilSize e) 15) (jsub 35 15)) 10))) 10;
          pupilColorName = getColorName (pupilColor e)
      in push_trait
           \<lparr>name = ''Pupil Gate'',
            value = pupilColorName @ '' '' @ js_lookup pupilTypes (pupilShape e) @
                    '' ('' @ str_of_tenths pupilRarity @ '')''\<rparr> e)"

definition trait_arcanePowers :: "Eyeball \<Rightarrow> Eyeball" where
  "trait_arcanePowers e =
     (let powers = powers_of e
      in if length powers > 0
         then (let (bonus, r) = range_rng 0 (Some 2) (rng e);
                   powerLevel = jadd (jmul (real (length powers)) 2.0) bonus
               in push_trait
                    \<lparr>name = ''Arcane Powers'',
                     value = join '' + '' powers @ '' ('' @ toFixed1 powerLevel @ '')''\<rparr>
                    (e\<lparr>rng := r\<rparr>))
         else push_trait \<lparr>name = ''Arcane Powers'', value = ''Pure Essence (1.0)''\<rparr> e)"

definition trait_essenceType :: "Eyeball \<Rightarrow> Eyeball" where
  "trait_essenceType e =
     (let intensityValue = toFixed1 (jmul (intensity e) 10)
      in push_trait
           \<lparr>name = ''Essence Type'',
            value = js_lookup essenceTypes (style e) @ '' ('' @ intensityValue @ '')''\<rparr> e)"

definition generateMetadata :: "Eyeball \<Rightarrow> Eyeball" where
  "generateMetadata e =
     (let e = e\<lparr>metadata := \<lparr>traits = []\<rparr>\<rparr>;
          e = trait_portalFrame e;
          e = trait_scleraEssence e;
          e = trait_irisConstellation e;
          e = trait_pupilGate e;
          e = trait_arcanePowers e
      in trait_essenceType e)"

definition pick :: "'a list \<Rightarrow> Eyeball \<Rightarrow> 'a \<times> Eyeball" where
  \<comment> \<open>\<open>this.rng.choice(array)\<close> on a non-empty literal array\<close>
  "pick array e = (let (x, r) = choice array (rng e) in (the x, e\<lparr>rng := r\<rparr>))"

definition draw_range :: "real \<Rightarrow> real \<Rightarrow> Eyeball \<Rightarrow> real \<times> Eyeball" where
  \<comment> \<open>\<open>this.rng.range(min, max)\<close>\<close>
  "draw_range mn mx e = (let (x, r) = range_rng mn (Some mx) (rng e) in (x, e\<lparr>rng := r\<rparr>))"

definition draw_boolean :: "real \<Rightarrow> Eyeball \<Rightarrow> bool \<times> Eyeball" where
  \<comment> \<open>\<open>this.rng.boolean(p)\<close>\<close>
  "draw_boolean pr e = (let (b, r) = boolean (Some pr) (rng e) in (b, e\<lparr>rng := r\<rparr>))"

text \<open>
  \<open>assign upd d\<close> is the statement \<open>this.field = d\<close>, where \<open>d\<close> is an expression
  that draws from \<open>this.rng\<close> and \<open>upd\<close> is the update of the field.
\<close>

definition assign ::
  "(('a \<Rightarrow> 'a) \<Rightarrow> Eyeball \<Rightarrow> Eyeball) \<Rightarrow> (Eyeball \<Rightarrow> 'a \<times> Eyeball) \<Rightarrow> Eyeball \<Rightarrow> Eyeball" where
  "assign upd d e = (let (x, e') = d e in upd (\<lambda>_. x) e')"

definition assign_properties :: "Eyeball \<Rightarrow> Eyeball" where
  \<comment> \<open>\<open>generateProperties\<close> up to its last statement, the call of \<open>generateMetadata\<close>\<close>
  "assign_properties e =
     (let e = assign socketShape_update
                (pick [''circle'', ''oval'', ''diamond'', ''almond'', ''star'', ''hexagon'']) e;
          e = assign socketSize_update (draw_range 80 140) e;
          e = assign socketColor_update (generateColor ''socket'') e;
          e = assign scleraColor_update (generateColor ''sclera'') e;
          e = assign scleraTexture_update
                (pick [''smooth'', ''veined'', ''cloudy'', ''metallic'', ''crystalline'']) e;
          e = assign irisSize_update (draw_range 40 80) e;
          e = assign irisShape_update
                (pick [''circle'', ''oval'', ''star'', ''diamond'', ''octagon'', ''spiral'']) e;
          e = assign irisColor1_update (generateColor ''iris'') e;
          e = assign irisColor2_update (generateColor ''iris'') e;
          e = assign irisPattern_update
                (pick [''solid'', ''radial'', ''spiral'', ''geometric'', ''fractal'',
                       ''crystalline'', ''void'']) e;
          e = assign pupilSize_update (draw_range 15 35) e;
          e = assign pupilShape_update
                (pick [''circle'', ''slit'', ''star'', ''cross'', ''diamond'', ''multiple'',
                       ''void'']) e;
          e = assign pupilColor_update (generateColor ''pupil'') e;
          e = assign hasGlow_update (draw_boolean (rd 0.6)) e;
          e = assign hasLaser_update (draw_boolean (rd 0.3)) e;
          e = assign hasAura_update (draw_boolean (rd 0.4)) e;
          e = assign hasParticles_update (draw_boolean 0.5) e;
          e = assign hasLightning_update (draw_boolean (rd 0.2)) e;
          e = assign animationEnergy_update (draw_range (rd 0.1) 1.0) e;
          e = assign effectColor_update (generateColor ''effect'') e;
          e = assign laserColor_update (generateColor ''laser'') e;
          e = assign auraColor_update (generateColor ''aura'') e;
          e = assign style_update
                (pick [''organic'', ''mechanical'', ''cosmic'', ''demonic'', ''angelic'',
                       ''digital'', ''crystal'']) e
      in assign intensity_update (draw_range 0.5 1.5) e)"

definition generateProperties :: "Eyeball \<Rightarrow> Eyeball" where
  "generateProperties e = generateMetadata (assign_properties e)"

text \<open>
  The constructor. A field that has not been assigned yet holds a placeholder here
  (\<open>undefined\<close> in the source); \<open>generateProperties\<close> assigns every attribute and the
  metadata before anything reads them, and the constructor assigns the last two fields.
\<close>

definition blank :: "real \<Rightarrow> real \<Rightarrow> nat \<Rightarrow> Eyeball" where
  "blank canvasWidth canvasHeight sd =
     \<lparr>w = canvasWidth, h = canvasHeight,
      centerX = jdiv canvasWidth 2, centerY = jdiv canvasHeight 2,
      seed = sd, rng = SeededRandom sd,
      socketShape = [], socketSize = 0, socketColor = (0, 0, 0), scleraColor = (0, 0, 0),
      scleraTexture = [], irisSize = 0, irisShape = [], irisColor1 = (0, 0, 0),
      irisColor2 = (0, 0, 0), irisPattern = [], pupilSize = 0, pupilShape = [],
      pupilColor = (0, 0, 0), hasGlow = False, hasLaser = False, hasAura = False,
      hasParticles = False, hasLightning = False, animationEnergy = 0,
      effectColor = (0, 0, 0), laserColor = (0, 0, 0), auraColor = (0, 0, 0),
      style = [], intensity = 0, metadata = \<lparr>traits = []\<rparr>, time = 0, animationSpeed = 0\<rparr>"

definition new_Eyeball :: "nat \<Rightarrow> real \<Rightarrow> real \<Rightarrow> Eyeball" where
  \<comment> \<open>\<open>new Eyeball(seed, canvasWidth, canvasHeight)\<close>\<close>
  "new_Eyeball sd canvasWidth canvasHeight =
     (let e = generateProperties (blank canvasWidth canvasHeight sd);
          e = e\<lparr>time := 0\<rparr>
      in assign animationSpeed_update (draw_range (rd 0.01) (rd 0.05)) e)"

section \<open>The drawing surface\<close>

text \<open>
  The surface is the 2D context of a canvas. What a frame does to it is the sequence of
  calls made on the context, recorded oldest first.
\<close>

datatype css_color = Rgb real real real | Rgba real real real real | Transparent

datatype ctx_call =
    Save
  | Restore
  | Translate real real
  | Rotate real
  | FillStyle css_color
  | StrokeStyle css_color
  | LineWidth real
  | FillRect real real real real
  | BeginPath
  | ClosePath
  | MoveTo real real
  | LineTo real real
  | EllipsePath real real real real real real real
  | Fill
  | Stroke

record Context2D =
  canvas_width :: real
  canvas_height :: real
  calls :: "ctx_call list"

text \<open>\<open>firstVertex\<close> is not set by the constructor; unset, it is read as false.\<close>

record CanvasHelper =
  ctx :: Context2D
  firstVertex :: bool

text \<open>\<open>Math.PI\<close> is the double nearest to \<open>\<pi>\<close>; doubling it is exact.\<close>

definition PI :: real where
  "PI = 884279719003555 / 281474976710656"

definition TWO_PI :: real where
  "TWO_PI = jmul PI 2"

definition new_CanvasHelper :: "Context2D \<Rightarrow> CanvasHelper" where
  "new_CanvasHelper c = \<lparr>ctx = c, firstVertex = False\<rparr>"

definition call :: "ctx_call \<Rightarrow> CanvasHelper \<Rightarrow> CanvasHelper" where
  \<comment> \<open>one call on \<open>this.ctx\<close>\<close>
  "call c p = p\<lparr>ctx := (ctx p)\<lparr>calls := calls (ctx p) @ [c]\<rparr>\<rparr>"

definition map_num :: "real \<Rightarrow> real \<Rightarrow> real \<Rightarrow> real \<Rightarrow> real \<Rightarrow> real" where
  "map_num v start1 stop1 start2 stop2 =
     start2 + (stop2 - start2) * ((v - start1) / (stop1 - start1))"

definition lerp :: "real \<Rightarrow> real \<Rightarrow> real \<Rightarrow> real" where
  "lerp start stop amt = start + (stop - start) * amt"

definition js_rem :: "real \<Rightarrow> real \<Rightarrow> real" where
  \<comment> \<open>the operator \<open>%\<close>: the remainder has the sign of the dividend\<close>
  "js_rem a b = (let q = a / b in a - b * of_int (if 0 \<le> q then \<lfloor>q\<rfloor> else \<lceil>q\<rceil>))"

definition push :: "CanvasHelper \<Rightarrow> CanvasHelper" where
  "push p = call Save p"

definition pop :: "CanvasHelper \<Rightarrow> CanvasHelper" where
  "pop p = call Restore p"

definition translate :: "real \<Rightarrow> real \<Rightarrow> CanvasHelper \<Rightarrow> CanvasHelper" where
  "translate x y p = call (Translate x y) p"

definition rotate_by :: "real \<Rightarrow> CanvasHelper \<Rightarrow> CanvasHelper" where
  "rotate_by angle p = call (Rotate angle) p"

definition background :: "real \<Rightarrow> real \<Rightarrow> real \<Rightarrow> CanvasHelper \<Rightarrow> CanvasHelper" where
  "background r g b p =
     (let p = call (FillStyle (Rgb r g b)) p
      in call (FillRect 0 0 (canvas_width (ctx p)) (canvas_height (ctx p))) p)"

text \<open>\<open>fill\<close> and \<open>stroke\<close> take the alpha as fourth argument; a call that leaves it out
  passes the default 255.\<close>

definition fill :: "real \<Rightarrow> real \<Rightarrow> real \<Rightarrow> real \<Rightarrow> CanvasHelper \<Rightarrow> CanvasHelper" where
  "fill r g b a p = call (FillStyle (Rgba r g b (a / 255))) p"

definition stroke :: "real \<Rightarrow> real \<Rightarrow> real \<Rightarrow> real \<Rightarrow> CanvasHelper \<Rightarrow> CanvasHelper" where
  "stroke r g b a p = call (StrokeStyle (Rgba r g b (a / 255))) p"

definition fillc :: "color \<Rightarrow> real \<Rightarrow> CanvasHelper \<Rightarrow> CanvasHelper" where
  \<comment> \<open>\<open>p.fill(c[0], c[1], c[2], a)\<close>\<close>
  "fillc c a p = (let (r, g, b) = c in fill r g b a p)"

definition strokec :: "color \<Rightarrow> real \<Rightarrow> CanvasHelper \<Rightarrow> CanvasHelper" where
  \<comment> \<open>\<open>p.stroke(c[0], c[1], c[2], a)\<close>\<close>
  "strokec c a p = (let (r, g, b) = c in stroke r g b a p)"

definition lerpc :: "color \<Rightarrow> color \<Rightarrow> real \<Rightarrow> color" where
  \<comment> \<open>the three \<open>p.lerp(c1[k], c2[k], amt)\<close>\<close>
  "lerpc c d amt =
     (let (r1, g1, b1) = c; (r2, g2, b2) = d
      in (lerp r1 r2 amt, lerp g1 g2 amt, lerp b1 b2 amt))"

definition strokeWeight :: "real \<Rightarrow> CanvasHelper \<Rightarrow> CanvasHelper" where
  "strokeWeight weight p = call (LineWidth weight) p"

definition noStroke :: "CanvasHelper \<Rightarrow> CanvasHelper" where
  "noStroke p = call (StrokeStyle Transparent) p"

definition noFill :: "CanvasHelper \<Rightarrow> CanvasHelper" where
  "noFill p = call (FillStyle Transparent) p"

definition ellipse :: "real \<Rightarrow> real \<Rightarrow> real \<Rightarrow> real \<Rightarrow> CanvasHelper \<Rightarrow> CanvasHelper" where
  "ellipse x y wd ht p =
     call Fill (call (EllipsePath x y (wd / 2) (ht / 2) 0 0 TWO_PI) (call BeginPath p))"

definition line :: "real \<Rightarrow> real \<Rightarrow> real \<Rightarrow> real \<Rightarrow> CanvasHelper \<Rightarrow> CanvasHelper" where
  "line x1 y1 x2 y2 p =
     call Stroke (call (LineTo x2 y2) (call (MoveTo x1 y1) (call BeginPath p)))"

definition rect :: "real \<Rightarrow> real \<Rightarrow> real \<Rightarrow> real \<Rightarrow> CanvasHelper \<Rightarrow> CanvasHelper" where
  "rect x y wd ht p = call (FillRect (x - wd / 2) (y - ht / 2) wd ht) p"

definition rectMode :: "CanvasHelper \<Rightarrow> CanvasHelper" where
  "rectMode p = p"

definition beginShape :: "CanvasHelper \<Rightarrow> CanvasHelper" where
  "beginShape p = call BeginPath p"

definition endShape :: "bool \<Rightarrow> CanvasHelper \<Rightarrow> CanvasHelper" where
  "endShape close p = call Stroke (call Fill (if close then call ClosePath p else p))"

definition vertex :: "real \<Rightarrow> real \<Rightarrow> CanvasHelper \<Rightarrow> CanvasHelper" where
  "vertex x y p =
     (if firstVertex p then (call (MoveTo x y) p)\<lparr>firstVertex := False\<rparr>
      else call (LineTo x y) p)"

definition triangle ::
  "real \<Rightarrow> real \<Rightarrow> real \<Rightarrow> real \<Rightarrow> real \<Rightarrow> real \<Rightarrow> CanvasHelper \<Rightarrow> CanvasHelper" where
  "triangle x1 y1 x2 y2 x3 y3 p =
     call Fill (call ClosePath (call (LineTo x3 y3) (call (LineTo x2 y2)
       (call (MoveTo x1 y1) (call BeginPath p)))))"

section \<open>Loops\<close>

text \<open>
  Loop counters are numbers like every other. \<open>for_lt i n\<close> is
  \<open>for (let i = ..; i < n; i++)\<close>, \<open>for_le\<close> the same with \<open>i <= n\<close>, and \<open>for_gt0 i\<close>
  is \<open>for (let i = ..; i > 0; i--)\<close>; the \<open>_opt\<close> forms run a body that may not return.
  Each of these loops of the source starts from an integer literal (at most 20) and
  runs to a bound of at most 25, where \<open>i++\<close> and \<open>i--\<close> are exact.

  \<open>for_step a bound step\<close> is \<open>for (let a = ..; a < bound; a += step)\<close>, the sum
  rounded as the source rounds it. When the rounded sum does not exceed \<open>a\<close> (the step
  is not positive, or so small beside \<open>a\<close> that rounding gives \<open>a\<close> back), no later
  round gets further and the source never leaves the loop: the result is \<open>None\<close>.
\<close>

function for_lt :: "real \<Rightarrow> real \<Rightarrow> (real \<Rightarrow> 's \<Rightarrow> 's) \<Rightarrow> 's \<Rightarrow> 's" where
  "for_lt i n body s = (if i < n then for_lt (i + 1) n body (body i s) else s)"
  by pat_completeness auto
termination
  by (relation "measure (\<lambda>(i, n, body, s). nat \<lceil>n - i\<rceil>)") (auto, linarith)

function for_le :: "real \<Rightarrow> real \<Rightarrow> (real \<Rightarrow> 's \<Rightarrow> 's) \<Rightarrow> 's \<Rightarrow> 's" where
  "for_le i n body s = (if i \<le> n then for_le (i + 1) n body (body i s) else s)"
  by pat_completeness auto
termination
  by (relation "measure (\<lambda>(i, n, body, s). nat (\<lfloor>n - i\<rfloor> + 1))") (auto, linarith)

function for_gt0 :: "real \<Rightarrow> (real \<Rightarrow> 's \<Rightarrow> 's) \<Rightarrow> 's \<Rightarrow> 's" where
  "for_gt0 i body s = (if i > 0 then for_gt0 (i - 1) body (body i s) else s)"
  by pat_completeness auto
termination
  by (relation "measure (\<lambda>(i, body, s). nat \<lceil>i\<rceil>)")
    (simp_all add: nat_less_iff zero_less_ceiling)

function for_gt0_opt :: "real \<Rightarrow> (real \<Rightarrow> 's \<Rightarrow> 's option) \<Rightarrow> 's \<Rightarrow> 's option" where
  "for_gt0_opt i body s =
     (if i > 0
      then (case body i s of None \<Rightarrow> None | Some s' \<Rightarrow> for_gt0_opt (i - 1) body s')
      else Some s)"
  by pat_completeness auto
termination
  by (relation "measure (\<lambda>(i, body, s). nat \<lceil>i\<rceil>)")
    (simp_all add: nat_less_iff zero_less_ceiling)

function for_step ::
  "real \<Rightarrow> real \<Rightarrow> real \<Rightarrow> (real \<Rightarrow> 's \<Rightarrow> 's option) \<Rightarrow> 's \<Rightarrow> 's option" where
  "for_step a bound step body s =
     (if a < bound
      then (case body a s of
              None \<Rightarrow> None
            | Some s' \<Rightarrow>
                if jadd a step \<le> a then None else for_step (jadd a step) bound step body s')
      else Some s)"
  by pat_completeness auto

function for_lt_opt :: "real \<Rightarrow> real \<Rightarrow> (real \<Rightarrow> 's \<Rightarrow> 's option) \<Rightarrow> 's \<Rightarrow> 's option" where
  "for_lt_opt i n body s =
     (if i < n
      then (case body i s of None \<Rightarrow> None | Some s' \<Rightarrow> for_lt_opt (i + 1) n body s')
      else Some s)"
  by pat_completeness auto
termination
  by (relation "measure (\<lambda>(i, n, body, s). nat \<lceil>n - i\<rceil>)") (auto, linarith)

declare for_lt.simps [simp del] for_le.simps [simp del] for_gt0.simps [simp del]
  for_gt0_opt.simps [simp del] for_lt_opt.simps [simp del]

section \<open>Shapes\<close>

text \<open>
  The polygon loops step the angle by \<open>TWO_PI / npoints\<close>. Every call passes 6 for
  \<open>npoints\<close>; a value of 0 would make the step infinite in the source, and the model has
  no infinite numbers.
\<close>

definition drawStar ::
  "CanvasHelper \<Rightarrow> real \<Rightarrow> real \<Rightarrow> real \<Rightarrow> real \<Rightarrow> real \<Rightarrow> CanvasHelper option" where
  "drawStar p x y radius1 radius2 npoints =
     (let angle = jdiv TWO_PI npoints;
          halfAngle = jdiv angle 2.0;
          p = p\<lparr>firstVertex := True\<rparr>;
          p = beginShape p
      in do {
        p \<leftarrow> for_step 0 TWO_PI angle
               (\<lambda>a p.
                  let sx = x + cos a * radius2;
                      sy = y + sin a * radius2;
                      p = vertex sx sy p;
                      sx = x + cos (a + halfAngle) * radius1;
                      sy = y + sin (a + halfAngle) * radius1
                  in Some (vertex sx sy p)) p;
        Some (endShape True p)
      })"

definition drawPolygon ::
  "CanvasHelper \<Rightarrow> real \<Rightarrow> real \<Rightarrow> real \<Rightarrow> real \<Rightarrow> CanvasHelper option" where
  "drawPolygon p x y radius npoints =
     (let angle = jdiv TWO_PI npoints;
          p = p\<lparr>firstVertex := True\<rparr>;
          p = beginShape p
      in do {
        p \<leftarrow> for_step 0 TWO_PI angle
               (\<lambda>a p.
                  let sx = x + cos a * radius;
                      sy = y + sin a * radius
                  in Some (vertex sx sy p)) p;
        Some (endShape True p)
      })"

definition drawShape :: "CanvasHelper \<Rightarrow> string \<Rightarrow> real \<Rightarrow> CanvasHelper option" where
  "drawShape p shape sz =
     (if shape = ''circle'' then Some (ellipse 0 0 sz sz p)
      else if shape = ''oval'' then Some (ellipse 0 0 (sz * 1.3) (sz * 0.8) p)
      else if shape = ''diamond'' then
        (let p = push p;
             p = rotate_by (PI / 4) p;
             p = rectMode p;
             p = rect 0 0 (sz * 0.7) (sz * 0.7) p
         in Some (pop p))
      else if shape = ''star'' then drawStar p 0 0 (sz / 2) (sz / 4) 6
      else if shape = ''hexagon'' then drawPolygon p 0 0 (sz / 2) 6
      else if shape = ''almond'' then Some (ellipse 0 0 (sz * 1.5) (sz * 0.6) p)
      else Some (ellipse 0 0 sz sz p))"

section \<open>Iris patterns\<close>

definition drawRadialPattern :: "Eyeball \<Rightarrow> CanvasHelper \<Rightarrow> CanvasHelper" where
  "drawRadialPattern e p =
     (let segments = 12
      in for_lt 0 segments
           (\<lambda>i p.
              let angle = (TWO_PI / segments) * i;
                  colorLerp = i / segments;
                  p = fillc (lerpc (irisColor1 e) (irisColor2 e) colorLerp) 255 p;
                  p = push p;
                  p = rotate_by angle p;
                  p = triangle 0 0 (irisSize e / 2) (- 5) (irisSize e / 2) 5 p
              in pop p) p)"

definition drawSpiralPattern :: "Eyeball \<Rightarrow> CanvasHelper \<Rightarrow> CanvasHelper option" where
  "drawSpiralPattern e p =
     (let p = noFill p;
          p = strokeWeight 3 p
      in do {
        p \<leftarrow> for_lt_opt 0 5
               (\<lambda>i p.
                  let colorLerp = i / 5;
                      p = strokec (lerpc (irisColor1 e) (irisColor2 e) colorLerp) 255 p;
                      p = p\<lparr>firstVertex := True\<rparr>;
                      p = beginShape p;
                      p = noFill p
                  in do {
                    p \<leftarrow> for_step 0 (jmul TWO_PI 3) (rd 0.1)
                           (\<lambda>angle p.
                              let radius = map_num angle 0 (TWO_PI * 3) 0 (irisSize e / 2);
                                  x = cos (angle + time e * animationEnergy e + i) * radius;
                                  y = sin (angle + time e * animationEnergy e + i) * radius
                              in Some (vertex x y p)) p;
                    Some (endShape False p)
                  }) p;
        Some (noStroke p)
      })"

definition drawGeometricPattern :: "Eyeball \<Rightarrow> CanvasHelper \<Rightarrow> CanvasHelper" where
  "drawGeometricPattern e p =
     (let numRings = 4
      in for_lt 0 numRings
           (\<lambda>ring p.
              let radius = map_num ring 0 (numRings - 1) (irisSize e / 8) (irisSize e / 2);
                  numShapes = 6 + ring * 2
              in for_lt 0 numShapes
                   (\<lambda>i p.
                      let angle = (TWO_PI / numShapes) * i +
                                  time e * animationEnergy e * (ring + 1);
                          x = cos angle * radius;
                          y = sin angle * radius;
                          colorLerp = ring / numRings;
                          p = fillc (lerpc (irisColor1 e) (irisColor2 e) colorLerp) 255 p;
                          p = push p;
                          p = translate x y p;
                          p = rotate_by angle p;
                          p = rectMode p;
                          p = rect 0 0 5 5 p
                      in pop p) p) p)"

text \<open>
  The recursive pattern. Sizes and offsets are rounded as the source rounds them. The
  depth is 4 in the one call from outside and an integer from 0 to 4 in every call, so
  \<open>depth - 1\<close> is exact.
\<close>

function drawFractalLayer ::
  "Eyeball \<Rightarrow> CanvasHelper \<Rightarrow> real \<Rightarrow> real \<Rightarrow> real \<Rightarrow> real \<Rightarrow> CanvasHelper" where
  "drawFractalLayer e p sz x y depth =
     (if depth \<le> 0 \<or> sz < 5 then p
      else
        (let colorLerp = map_num depth 0 4 1 0;
             p = fillc (lerpc (irisColor1 e) (irisColor2 e) colorLerp) 150 p;
             p = ellipse x y sz sz p;
             newSize = jmul sz (rd 0.6);
             offset = jmul sz (rd 0.3);
             p = drawFractalLayer e p newSize (jsub x offset) y (depth - 1);
             p = drawFractalLayer e p newSize (jadd x offset) y (depth - 1);
             p = drawFractalLayer e p newSize x (jsub y offset) (depth - 1)
         in drawFractalLayer e p newSize x (jadd y offset) (depth - 1)))"
  by pat_completeness auto
termination
  by (relation "measure (\<lambda>(e, p, sz, x, y, depth). nat \<lceil>depth\<rceil>)")
    (simp_all add: nat_less_iff zero_less_ceiling)

declare drawFractalLayer.simps [simp del]

definition drawFractalPattern :: "Eyeball \<Rightarrow> CanvasHelper \<Rightarrow> CanvasHelper" where
  "drawFractalPattern e p = drawFractalLayer e p (jdiv (irisSize e) 2) 0 0 4"

definition drawCrystallinePattern :: "Eyeball \<Rightarrow> CanvasHelper \<Rightarrow> CanvasHelper" where
  "drawCrystallinePattern e p =
     (let numCrystals = 8;
          p = for_lt 0 numCrystals
                (\<lambda>i p.
                   let angle = (TWO_PI / numCrystals) * i;
                       radius = irisSize e / 3;
                       x = cos angle * radius;
                       y = sin angle * radius;
                       p = fillc (irisColor1 e) 180 p;
                       p = push p;
                       p = translate x y p;
                       p = rotate_by angle p;
                       p = triangle 0 (- 10) (- 8) 10 8 10 p
                   in pop p) p;
          p = fillc (irisColor2 e) 220 p
      in ellipse 0 0 (irisSize e / 3) (irisSize e / 3) p)"

definition drawVoidPattern :: "Eyeball \<Rightarrow> CanvasHelper \<Rightarrow> CanvasHelper" where
  "drawVoidPattern e p =
     for_gt0 20
       (\<lambda>i p.
          let alpha = map_num i 0 20 0 255;
              sz = map_num i 0 20 0 (irisSize e);
              p = (if js_rem i 2 = 0 then fillc (irisColor1 e) alpha p
                   else fill 0 0 0 alpha p)
          in ellipse 0 0 sz sz p) p"

section \<open>Layers\<close>

definition drawVeins :: "Eyeball \<Rightarrow> CanvasHelper \<Rightarrow> Eyeball \<times> CanvasHelper" where
  "drawVeins e p =
     (let p = stroke 200 100 100 100 p;
          p = strokeWeight 1 p;
          (e, p) = for_lt 0 8
                     (\<lambda>i (e, p).
                        let (angle, e) = draw_range 0 TWO_PI e;
                            (len, e) = draw_range 20 40 e;
                            p = push p;
                            p = rotate_by angle p;
                            (y, e) = draw_range (- 5) 5 e;
                            p = line 0 0 len y p
                        in (e, pop p)) (e, p)
      in (e, noStroke p))"

definition drawSocket :: "Eyeball \<Rightarrow> CanvasHelper \<Rightarrow> CanvasHelper option" where
  "drawSocket e p =
     (let p = push p;
          p = translate (centerX e) (centerY e) p
      in do {
        p \<leftarrow> (if hasGlow e
              then for_gt0_opt 5
                     (\<lambda>i p.
                        let p = fillc (socketColor e) (50 - i * 8) p
                        in drawShape p (socketShape e) (socketSize e + i * 10)) p
              else Some p);
        p \<leftarrow> drawShape (fillc (socketColor e) 255 p) (socketShape e) (socketSize e);
        Some (pop p)
      })"

definition drawSclera :: "Eyeball \<Rightarrow> CanvasHelper \<Rightarrow> (Eyeball \<times> CanvasHelper) option" where
  "drawSclera e p =
     (let p = push p;
          p = translate (centerX e) (centerY e) p;
          (e, p) = (if scleraTexture e = ''veined'' then drawVeins e p else (e, p));
          scleraSize = jmul (socketSize e) (rd 0.85);
          p = fillc (scleraColor e) 255 p
      in do {
        p \<leftarrow> (if scleraTexture e = ''metallic''
              then for_step 0 scleraSize 2
                     (\<lambda>i p.
                        let alpha = map_num i 0 scleraSize 255 100;
                            p = fillc (scleraColor e) alpha p
                        in drawShape p (socketShape e) (scleraSize - i)) p
              else drawShape p (socketShape e) scleraSize);
        Some (e, pop p)
      })"

definition laserGlow_of :: "Eyeball \<Rightarrow> real" where
  \<comment> \<open>the variable \<open>laserGlow\<close>, computed alike by \<open>drawIris\<close> and \<open>drawPupil\<close>\<close>
  "laserGlow_of e =
     (if hasLaser e
      then (let materializationCycle = time e * animationEnergy e * 0.4;
                materializationPhase = (sin materializationCycle + 1) / 2;
                materializationThreshold = 0.2
            in if materializationPhase > materializationThreshold
               then (let matIntensity =
                           map_num materializationPhase materializationThreshold 1 0 1
                     in sin (matIntensity * PI))
               else 0)
      else 0)"

definition drawIris :: "Eyeball \<Rightarrow> CanvasHelper \<Rightarrow> CanvasHelper option" where
  "drawIris e p =
     (let p = push p;
          p = translate (centerX e) (centerY e) p;
          offsetX = sin (time e) * 5 * animationEnergy e;
          offsetY = cos (time e * 0.7) * 3 * animationEnergy e;
          p = translate offsetX offsetY p;
          laserGlow = laserGlow_of e
      in do {
        p \<leftarrow> (if irisPattern e = ''radial'' then Some (drawRadialPattern e p)
              else if irisPattern e = ''spiral'' then drawSpiralPattern e p
              else if irisPattern e = ''geometric'' then Some (drawGeometricPattern e p)
              else if irisPattern e = ''fractal'' then Some (drawFractalPattern e p)
              else if irisPattern e = ''crystalline'' then Some (drawCrystallinePattern e p)
              else if irisPattern e = ''void'' then Some (drawVoidPattern e p)
              else drawShape (fillc (irisColor1 e) 255 p) (irisShape e) (irisSize e));
        p \<leftarrow> (if laserGlow > 0.1
              then do {
                p \<leftarrow> for_gt0_opt 6
                       (\<lambda>i p.
                          let glowAlpha = laserGlow * 30 * (i / 6);
                              glowSize = irisSize e + i * 6;
                              p = fillc (laserColor e) glowAlpha p
                          in drawShape p (irisShape e) glowSize) p;
                innerGlowAlpha \<leftarrow> Some (laserGlow * 40);
                p \<leftarrow> drawShape (fill 255 255 255 innerGlowAlpha p) (irisShape e)
                       (irisSize e + 2);
                tintAlpha \<leftarrow> Some (laserGlow * 25);
                drawShape (fillc (laserColor e) tintAlpha p) (irisShape e) (irisSize e)
              }
              else Some p);
        Some (pop p)
      })"

definition drawPupil :: "Eyeball \<Rightarrow> CanvasHelper \<Rightarrow> CanvasHelper option" where
  "drawPupil e p =
     (let p = push p;
          p = translate (centerX e) (centerY e) p;
          offsetX = sin (time e) * 5 * animationEnergy e;
          offsetY = cos (time e * 0.7) * 3 * animationEnergy e;
          p = translate offsetX offsetY p;
          laserGlow = laserGlow_of e
      in do {
        p \<leftarrow> (if pupilShape e = ''multiple''
              then (let numPupils = 3
                    in Some (for_lt 0 numPupils
                         (\<lambda>i p.
                            let angle = (TWO_PI / numPupils) * i;
                                x = cos angle * (pupilSize e * 0.3);
                                y = sin angle * (pupilSize e * 0.3);
                                p = push p;
                                p = translate x y p;
                                p = fillc (pupilColor e) 255 p;
                                p = ellipse 0 0 (pupilSize e * 0.5) (pupilSize e * 0.5) p
                            in pop p) p))
              else if pupilShape e = ''slit''
              then (let p = fillc (pupilColor e) 255 p
                    in Some (ellipse 0 0 (pupilSize e * 0.3) (pupilSize e) p))
              else if pupilShape e = ''cross''
              then (let p = fillc (pupilColor e) 255 p;
                        p = rectMode p;
                        p = rect 0 0 (pupilSize e * 0.3) (pupilSize e) p
                    in Some (rect 0 0 (pupilSize e) (pupilSize e * 0.3) p))
              else if pupilShape e = ''void''
              then Some (for_gt0 10
                     (\<lambda>i p.
                        let alpha = map_num i 0 10 255 0;
                            p = fill 0 0 0 alpha p;
                            sz = map_num i 0 10 (pupilSize e) 0
                        in ellipse 0 0 sz sz p) p)
              else drawShape (fillc (pupilColor e) 255 p) (pupilShape e) (pupilSize e));
        p \<leftarrow> (if laserGlow > 0.1
              then do {
                p \<leftarrow> for_gt0_opt 3
                       (\<lambda>i p.
                          let glowAlpha = laserGlow * 20 * (i / 3);
                              glowSize = pupilSize e + i * 3;
                              p = fillc (laserColor e) glowAlpha p
                          in drawShape p (pupilShape e) glowSize) p;
                innerGlowAlpha \<leftarrow> Some (laserGlow * 30);
                drawShape (fill 255 255 255 innerGlowAlpha p) (pupilShape e) (pupilSize e + 1)
              }
              else Some p);
        Some (pop p)
      })"

definition drawGlow :: "Eyeball \<Rightarrow> CanvasHelper \<Rightarrow> CanvasHelper" where
  "drawGlow e p =
     (let p = push p;
          p = translate (centerX e) (centerY e) p;
          p = for_gt0 10
                (\<lambda>i p.
                   let alpha = map_num i 0 10 0 255;
                       sz = socketSize e + i * 20;
                       p = fillc (effectColor e) alpha p
                   in ellipse 0 0 sz sz p) p;
          p = for_gt0 5
                (\<lambda>i p.
                   let alpha = map_num i 0 5 0 255;
                       sz = socketSize e + i * 8;
                       p = fill 255 255 255 alpha p
                   in ellipse 0 0 sz sz p) p
      in pop p)"

definition drawAura :: "Eyeball \<Rightarrow> CanvasHelper \<Rightarrow> CanvasHelper" where
  "drawAura e p =
     (let p = push p;
          p = translate (centerX e) (centerY e) p;
          numRays = 20;
          p = for_lt 0 numRays
                (\<lambda>i p.
                   let angle = (TWO_PI / numRays) * i + time e * 2 * animationEnergy e;
                       len = 70 + sin (time e * 3 * animationEnergy e + i) * 40 *
                                  animationEnergy e;
                       x1 = cos angle * (socketSize e / 2);
                       y1 = sin angle * (socketSize e / 2);
                       x2 = cos angle * (socketSize e / 2 + len);
                       y2 = sin angle * (socketSize e / 2 + len);
                       p = strokec (auraColor e) 255 p;
                       p = strokeWeight 8 p;
                       p = line x1 y1 x2 y2 p;
                       p = stroke 255 255 255 255 p;
                       p = strokeWeight 6 p;
                       p = line x1 y1 x2 y2 p;
                       p = strokec (auraColor e) 255 p;
                       p = strokeWeight 4 p;
                       p = line x1 y1 x2 y2 p;
                       p = stroke 255 255 255 255 p;
                       p = strokeWeight 2 p
                   in line x1 y1 x2 y2 p) p;
          p = noStroke p
      in pop p)"

definition drawHighlights :: "Eyeball \<Rightarrow> CanvasHelper \<Rightarrow> CanvasHelper" where
  "drawHighlights e p =
     (let p = push p;
          p = translate (centerX e) (centerY e) p;
          offsetX = sin (time e) * 5 * animationEnergy e;
          offsetY = cos (time e * 0.7) * 3 * animationEnergy e;
          p = translate offsetX offsetY p;
          p = fill 255 255 255 180 p;
          p = ellipse (- irisSize e / 4) (- irisSize e / 4) (irisSize e / 4) (irisSize e / 4) p;
          p = fill 255 255 255 100 p;
          p = ellipse (irisSize e / 3) (irisSize e / 3) (irisSize e / 6) (irisSize e / 6) p
      in pop p)"

definition drawParticles :: "Eyeball \<Rightarrow> CanvasHelper \<Rightarrow> CanvasHelper" where
  "drawParticles e p =
     (let p = push p;
          p = translate (centerX e) (centerY e) p;
          numParticles = 25;
          p = for_lt 0 numParticles
                (\<lambda>i p.
                   let angle = (TWO_PI / numParticles) * i + time e * 1.5 * animationEnergy e;
                       radius = socketSize e / 2 +
                                sin (time e * 2 * animationEnergy e + i) * 40 *
                                animationEnergy e;
                       x = cos angle * radius;
                       y = sin angle * radius;
                       sz = 5 + sin (time e * 4 * animationEnergy e + i) * 4 *
                                animationEnergy e;
                       p = fillc (effectColor e) 255 p;
                       p = ellipse x y (sz * 1.5) (sz * 1.5) p;
                       p = fill 255 255 255 255 p;
                       p = ellipse x y sz sz p;
                       p = fillc (effectColor e) 255 p;
                       p = ellipse x y (sz * 0.6) (sz * 0.6) p;
                       trailX = x - cos angle * 15;
                       trailY = y - sin angle * 15;
                       p = fillc (effectColor e) 255 p;
                       p = ellipse trailX trailY (sz * 0.8) (sz * 0.8) p;
                       trail2X = x - cos angle * 25;
                       trail2Y = y - sin angle * 25;
                       p = fillc (effectColor e) 200 p
                   in ellipse trail2X trail2Y (sz * 0.5) (sz * 0.5) p) p
      in pop p)"

definition laser_points ::
  "Eyeball \<Rightarrow> real \<Rightarrow> real \<Rightarrow> real \<Rightarrow> real \<Rightarrow> real \<Rightarrow> real \<Rightarrow> (real \<times> real) list" where
  \<comment> \<open>the array \<open>points\<close> of one beam, filled by the loop over the segments\<close>
  "laser_points e beam numBeams beamIntensity fadeIn laserAngle laserLength =
     (let waveOffset = beam * 0.25;
          segments = 10
      in for_le 0 segments
           (\<lambda>i points.
              let progress = i / segments;
                  distance = progress * laserLength;
                  x = cos laserAngle * distance;
                  y = sin laserAngle * distance;
                  waveFreq = 8 + beam;
                  baseWaveAmp = 3 * animationEnergy e * beamIntensity;
                  timeOffset = time e * 2 + waveOffset;
                  waveAmp = baseWaveAmp * (0.3 + 0.7 * progress) * fadeIn;
                  perpAngle = laserAngle + PI / 2;
                  shimmer = 1 + 0.1 * sin (time e * 4 + progress * 3);
                  waveX = cos perpAngle * sin (progress * waveFreq + timeOffset) * waveAmp *
                          shimmer;
                  waveY = sin perpAngle * sin (progress * waveFreq + timeOffset) * waveAmp *
                          shimmer;
                  fanAngle = (beam - (numBeams - 1) / 2) * 0.015;
                  fanX = cos (laserAngle + fanAngle) * distance;
                  fanY = sin (laserAngle + fanAngle) * distance;
                  x = fanX + waveX;
                  y = fanY + waveY
              in points @ [(x, y)]) [])"

definition drawLaser :: "Eyeball \<Rightarrow> CanvasHelper \<Rightarrow> CanvasHelper" where
  "drawLaser e p =
     (let p = push p;
          p = translate (centerX e) (centerY e) p;
          offsetX = sin (time e) * 5 * animationEnergy e;
          offsetY = cos (time e * 0.7) * 3 * animationEnergy e;
          p = translate offsetX offsetY p;
          materializationCycle = time e * animationEnergy e * 0.4;
          materializationPhase = (sin materializationCycle + 1) / 2;
          materializationThreshold = 0.2
      in if materializationPhase < materializationThreshold then pop p
         else
          (let matIntensity = map_num materializationPhase materializationThreshold 1 0 1;
               fadeIn = sin (matIntensity * PI);
               sweepCycle = time e * animationEnergy e * 0.6;
               sweepStart = PI * 0.25;
               sweepEnd = PI * 0.75;
               sweepRange = sweepEnd - sweepStart;
               sweepProgress = (sin sweepCycle + 1) / 2;
               laserAngle = sweepStart + sweepProgress * sweepRange;
               pulseSpeed = animationEnergy e * 12;
               pulseIntensity = 0.5 + 0.5 * sin (time e * pulseSpeed);
               chargeUpEffect = 0.3 + 0.7 * sin (time e * pulseSpeed * 1.5);
               laserLength = 400 * fadeIn;
               numBeams = 2;
               p = for_lt 0 numBeams
                     (\<lambda>beam p.
                        let beamIntensity =
                              (if beam = 0 then 1.0 else 0.7 - (beam * 0.15)) * fadeIn;
                            points = laser_points e beam numBeams beamIntensity fadeIn
                                       laserAngle laserLength;
                            layers =
                              [(24 * beamIntensity * pulseIntensity,
                                40 * beamIntensity * chargeUpEffect, laserColor e),
                               (18 * beamIntensity * pulseIntensity,
                                80 * beamIntensity * pulseIntensity, laserColor e),
                               (14 * beamIntensity * pulseIntensity,
                                140 * beamIntensity * pulseIntensity, (255, 255, 255)),
                               (10 * beamIntensity, 200 * beamIntensity, laserColor e),
                               (6 * beamIntensity, 255 * beamIntensity, (255, 255, 255)),
                               (3 * beamIntensity, 255 * beamIntensity, laserColor e)]
                        in fold
                             (\<lambda>(weight, alpha, col) p.
                                let finalAlpha = alpha * fadeIn;
                                    p = strokec col finalAlpha p;
                                    p = strokeWeight weight p;
                                    p = beginShape p;
                                    p = noFill p;
                                    p = fold (\<lambda>(x, y) p. vertex x y p) points p
                                in endShape False p) layers p) p;
               p = (if fadeIn > 0.5
                    then (let numSourceParticles = 8
                          in for_lt 0 numSourceParticles
                               (\<lambda>i p.
                                  let angle = (i / numSourceParticles) * TWO_PI + time e * 3;
                                      radius = 15 + 10 * sin (time e * 6 + i);
                                      particleX = cos angle * radius * fadeIn;
                                      particleY = sin angle * radius * fadeIn;
                                      p = fill 255 255 255 (180 * fadeIn) p;
                                      p = ellipse particleX particleY 4 4 p;
                                      p = fillc (laserColor e) (255 * fadeIn) p
                                  in ellipse particleX particleY 2 2 p) p)
                    else p);
               p = (if chargeUpEffect > 0.5 \<and> fadeIn > 0.3
                    then (let numParticles = 8
                          in for_lt 0 numParticles
                               (\<lambda>i p.
                                  let progress = (i / numParticles) + js_rem (time e * 0.7) 1;
                                      distance = progress * laserLength;
                                      particleBeam = js_rem i numBeams;
                                      fanAngle = (particleBeam - (numBeams - 1) / 2) * 0.015;
                                      x = cos (laserAngle + fanAngle) * distance;
                                      y = sin (laserAngle + fanAngle) * distance;
                                      perpAngle = laserAngle + PI / 2;
                                      particleWaveAmp = 2 * progress * fadeIn;
                                      waveX = cos perpAngle * sin (progress * 8 + time e * 3) *
                                              particleWaveAmp;
                                      waveY = sin perpAngle * sin (progress * 8 + time e * 3) *
                                              particleWaveAmp;
                                      x = x + waveX;
                                      y = y + waveY;
                                      particleSize = 4 + 6 * chargeUpEffect * fadeIn;
                                      p = fill 255 255 255 (220 * chargeUpEffect * fadeIn) p;
                                      p = ellipse x y (particleSize * 1.5) (particleSize * 1.5) p;
                                      p = fillc (laserColor e) (255 * fadeIn) p;
                                      p = ellipse x y particleSize particleSize p;
                                      p = fill 255 255 255 (120 * fadeIn) p
                                  in ellipse (x - waveX * 0.3) (y - waveY * 0.3)
                                       (particleSize * 0.5) (particleSize * 0.5) p) p)
                    else p);
               p = noStroke p
           in pop p))"

text \<open>
  One stroke of a lightning bolt. The source writes this block three times for each
  bolt, changing only the stroke colour and weight; each copy draws its own jitter.
\<close>

definition bolt_stroke ::
  "real \<Rightarrow> real \<Rightarrow> real \<Rightarrow> color \<Rightarrow> real \<Rightarrow> Eyeball \<times> CanvasHelper \<Rightarrow> Eyeball \<times> CanvasHelper" where
  "bolt_stroke startAngle startRadius endRadius col weight ep =
     (let (e, p) = ep;
          x = cos startAngle * startRadius;
          y = sin startAngle * startRadius;
          p = strokec col 255 p;
          p = strokeWeight weight p;
          p = p\<lparr>firstVertex := True\<rparr>;
          p = beginShape p;
          p = noFill p;
          p = vertex x y p;
          (e, p) = for_lt 0 6
                     (\<lambda>step (e, p).
                        let progress = step / 6;
                            targetRadius = lerp startRadius endRadius progress;
                            (j, e) = draw_range (- rd 0.4) (rd 0.4) e;
                            targetAngle = startAngle + j;
                            (jx, e) = draw_range (- 8) 8 e;
                            x = cos targetAngle * targetRadius + jx;
                            (jy, e) = draw_range (- 8) 8 e;
                            y = sin targetAngle * targetRadius + jy
                        in (e, vertex x y p)) (e, p)
      in (e, endShape False p))"

definition drawLightning :: "Eyeball \<Rightarrow> CanvasHelper \<Rightarrow> Eyeball \<times> CanvasHelper" where
  "drawLightning e p =
     (let p = push p;
          p = translate (centerX e) (centerY e) p;
          (x, e) = draw_range 0 2 e;
          numBolts = 3 + of_int \<lfloor>x\<rfloor>;
          (e, p) = for_lt 0 numBolts
                     (\<lambda>i (e, p).
                        let (j, e) = draw_range (- rd 0.3) (rd 0.3) e;
                            startAngle = (TWO_PI / numBolts) * i + j;
                            startRadius = irisSize e / 2;
                            endRadius = socketSize e / 2 + 20;
                            ep = bolt_stroke startAngle startRadius endRadius
                                   (255, 255, 255) 8 (e, p);
                            ep = bolt_stroke startAngle startRadius endRadius
                                   (200, 200, 255) 5 ep
                        in bolt_stroke startAngle startRadius endRadius
                             (255, 255, 255) 2 ep) (e, p);
          p = noStroke p
      in (e, pop p))"

section \<open>One frame\<close>

definition draw :: "Eyeball \<Rightarrow> Context2D \<Rightarrow> (Eyeball \<times> Context2D) option" where
  "draw e c =
     (let p = new_CanvasHelper c;
          e = e\<lparr>time := jadd (time e) (jmul (animationSpeed e) (animationEnergy e))\<rparr>;
          p = background 10 10 15 p;
          p = (if hasGlow e then drawGlow e p else p);
          p = (if hasAura e then drawAura e p else p)
      in do {
        p \<leftarrow> drawSocket e p;
        (e, p) \<leftarrow> drawSclera e p;
        p \<leftarrow> drawIris e p;
        p \<leftarrow> drawPupil e p;
        p \<leftarrow> Some (drawHighlights e p);
        p \<leftarrow> Some (if hasLaser e then drawLaser e p else p);
        p \<leftarrow> Some (if hasParticles e then drawParticles e p else p);
        (e, p) \<leftarrow> Some (if hasLightning e then drawLightning e p else (e, p));
        Some (e, ctx p)
      })"

section \<open>Notions used in the statements\<close>

text \<open>The attribute set of an instance: every field that \<open>generateProperties\<close> samples.\<close>

definition spec_of where
  "spec_of e =
     ((socketShape e, socketSize e, socketColor e),
      (scleraColor e, scleraTexture e),
      (irisSize e, irisShape e, irisColor1 e, irisColor2 e, irisPattern e),
      (pupilSize e, pupilShape e, pupilColor e),
      (hasGlow e, hasLaser e, hasAura e, hasParticles e, hasLightning e),
      animationEnergy e,
      (effectColor e, laserColor e, auraColor e),
      style e, intensity e)"

text \<open>The same instance placed on a canvas of another size.\<close>

definition on_canvas :: "real \<Rightarrow> real \<Rightarrow> Eyeball \<Rightarrow> Eyeball" where
  "on_canvas cw ch e = e\<lparr>w := cw, h := ch, centerX := jdiv cw 2, centerY := jdiv ch 2\<rparr>"

definition any_flag :: "Eyeball \<Rightarrow> bool" where
  "any_flag e \<longleftrightarrow> hasGlow e \<or> hasLaser e \<or> hasAura e \<or> hasParticles e \<or> hasLightning e"

text \<open>The labels of the effect flags that are set, as the specification words it.\<close>

definition labels_of_active_flags :: "Eyeball \<Rightarrow> string list" where
  "labels_of_active_flags e =
     map snd (filter fst
       [(hasGlow e, ''Ethereal Glow''), (hasLaser e, ''Laser Beam''),
        (hasAura e, ''Energy Aura''), (hasParticles e, ''Particle Storm''),
        (hasLightning e, ''Lightning Strike'')])"

definition arcanePowers_value :: "Eyeball \<Rightarrow> string" where
  \<comment> \<open>the text that \<open>trait_arcanePowers\<close> pushes, as a function of the state it starts in\<close>
  "arcanePowers_value e =
     (if powers_of e = [] then ''Pure Essence (1.0)''
      else join '' + '' (powers_of e) @ '' ('' @
           toFixed1 (jadd (jmul (real (length (powers_of e))) 2.0)
                       (fst (range_rng 0 (Some 2) (rng e)))) @
           '')'')"

text \<open>A sequence of calls on a stream, and the sequence of what they return.\<close>

datatype rng_call = CallNext | CallRange real "real option" | CallInt real real
  | CallChoice "real list" | CallBoolean "real option"

datatype rng_result = Num real | Whole int | Element "real option" | Truth bool

fun run_call :: "rng_call \<Rightarrow> SeededRandom \<Rightarrow> rng_result \<times> SeededRandom" where
  "run_call CallNext r = (let (x, r') = next_rng r in (Num x, r'))"
| "run_call (CallRange mn mx) r = (let (x, r') = range_rng mn mx r in (Num x, r'))"
| "run_call (CallInt mn mx) r = (let (x, r') = int_rng mn mx r in (Whole x, r'))"
| "run_call (CallChoice array) r = (let (x, r') = choice array r in (Element x, r'))"
| "run_call (CallBoolean pr) r = (let (x, r') = boolean pr r in (Truth x, r'))"

fun run_calls :: "rng_call list \<Rightarrow> SeededRandom \<Rightarrow> rng_result list \<times> SeededRandom" where
  "run_calls [] r = ([], r)"
| "run_calls (c # cs) r =
     (let (x, r') = run_call c r; (xs, r'') = run_calls cs r' in (x # xs, r''))"

text \<open>The stream after \<open>n\<close> draws, and the colour that \<open>generateColor\<close> makes from a
  stream.\<close>

definition skip :: "nat \<Rightarrow> SeededRandom \<Rightarrow> SeededRandom" where
  "skip n r = ((\<lambda>r. snd (next_rng r)) ^^ n) r"

definition color_of :: "string \<Rightarrow> SeededRandom \<Rightarrow> color" where
  "color_of t r = fst (generateColor t (blank 0 0 0\<lparr>rng := r\<rparr>))"

text \<open>
  Saved drawing states. \<open>depth_after ops d\<close> follows the number of states that a
  sequence of calls has saved and not yet restored, starting from \<open>d\<close>; it is \<open>None\<close>
  when a \<open>restore\<close> comes with nothing saved by the sequence itself. A sequence is
  balanced when each of its saves is matched by a later restore and the reverse.
\<close>

fun depth_after :: "ctx_call list \<Rightarrow> nat \<Rightarrow> nat option" where
  "depth_after [] d = Some d"
| "depth_after (Save # cs) d = depth_after cs (Suc d)"
| "depth_after (Restore # cs) d = (case d of 0 \<Rightarrow> None | Suc d' \<Rightarrow> depth_after cs d')"
| "depth_after (c # cs) d = depth_after cs d"

definition balanced :: "ctx_call list \<Rightarrow> bool" where
  "balanced ops \<longleftrightarrow> depth_after ops 0 = Some 0"

definition appends :: "CanvasHelper \<Rightarrow> CanvasHelper \<Rightarrow> ctx_call list \<Rightarrow> bool" where
  \<comment> \<open>\<open>q\<close> is \<open>p\<close> after the calls \<open>ops\<close> and nothing else done to the surface\<close>
  "appends p q ops \<longleftrightarrow> ctx q = (ctx p)\<lparr>calls := calls (ctx p) @ ops\<rparr>"

definition bal_ext :: "CanvasHelper \<Rightarrow> CanvasHelper \<Rightarrow> bool" where
  "bal_ext p q \<longleftrightarrow> (\<exists>ops. appends p q ops \<and> balanced ops)"

text \<open>The number of nodes of a four-way tree of depth \<open>n\<close>, and the calls that put an
  ellipse on the surface.\<close>

fun nodes :: "nat \<Rightarrow> nat" where
  "nodes 0 = 0"
| "nodes (Suc n) = 1 + 4 * nodes n"

definition is_ellipse :: "ctx_call \<Rightarrow> bool" where
  "is_ellipse c = (case c of EllipsePath x y rx ry rot a0 a1 \<Rightarrow> True | _ \<Rightarrow> False)"

section \<open>Rounding: properties\<close>

lemma bexp_up_bounds: "1 \<le> x \<Longrightarrow> 2 powi bexp_up x \<le> x \<and> x < 2 powi (bexp_up x + 1)"
proof (induction x rule: bexp_up.induct)
  case (1 x)
  show ?case
  proof (cases "2 \<le> x")
    case True
    then have ih: "2 powi bexp_up (x / 2) \<le> x / 2 \<and> x / 2 < 2 powi (bexp_up (x / 2) + 1)"
      using 1 by simp
    have e: "bexp_up x = bexp_up (x / 2) + 1" using True by (subst bexp_up.simps) simp
    have p: "(2::real) powi (k + 1) = 2 powi k * 2" for k
      by (simp add: power_int_add)
    show ?thesis using ih unfolding e p by simp
  next
    case False
    then have "bexp_up x = 0" by (subst bexp_up.simps) simp
    then show ?thesis using False 1(2) by simp
  qed
qed

lemma bexp_dn_bounds:
  "0 < x \<Longrightarrow> x < 1 \<Longrightarrow> 2 powi bexp_dn x \<le> x \<and> x < 2 powi (bexp_dn x + 1)"
proof (induction x rule: bexp_dn.induct)
  case (1 x)
  have e: "bexp_dn x = bexp_dn (x * 2) - 1" using 1(2,3) by (subst bexp_dn.simps) simp
  have p: "(2::real) powi (k - 1) = 2 powi k / 2" for k
    by (simp add: power_int_diff)
  show ?case
  proof (cases "x * 2 < 1")
    case True
    then have "2 powi bexp_dn (x * 2) \<le> x * 2 \<and> x * 2 < 2 powi (bexp_dn (x * 2) + 1)"
      using 1 by simp
    then show ?thesis unfolding e p by (simp add: power_int_add)
  next
    case False
    then have "bexp_dn (x * 2) = 0" by (subst bexp_dn.simps) simp
    then show ?thesis using False 1(3) unfolding e by (simp add: power_int_minus)
  qed
qed

lemma bexp_bounds: "0 < x \<Longrightarrow> 2 powi bexp x \<le> x \<and> x < 2 powi (bexp x + 1)"
  using bexp_up_bounds[of x] bexp_dn_bounds[of x] by (simp add: bexp_def)

lemma bexp_less: 
  assumes "0 < x" and "x < 2 powi k"
  shows "bexp x < k"
proof (rule ccontr)
  assume "\<not> bexp x < k"
  then have "(2::real) powi k \<le> 2 powi bexp x" by (simp add: power_int_increasing)
  with bexp_bounds[OF assms(1)] assms(2) show False by linarith
qed

lemma round_even_of_int [simp]: "round_even (of_int m) = m"
  by (simp add: round_even_def)

lemma round_even_err: "\<bar>of_int (round_even y) - y\<bar> \<le> 1 / 2"
  unfolding round_even_def Let_def by (auto; linarith)

lemma rd_exact:
  assumes "x = of_int m * 2 powi j" and "\<bar>m\<bar> < 2 ^ 53" and "emin \<le> j"
  shows "rd x = x"
proof (cases "x = 0")
  case True
  then show ?thesis by (simp add: rd_def)
next
  case False
  define q where "q = max (bexp \<bar>x\<bar> - 52) emin"
  have "\<bar>x\<bar> = of_int \<bar>m\<bar> * 2 powi j" by (simp add: assms(1) abs_mult)
  also have "\<dots> < 2 ^ 53 * 2 powi j"
  proof -
    have "real_of_int \<bar>m\<bar> < 2 ^ 53" using assms(2) by (metis of_int_less_iff of_int_numeral of_int_power)
    then show ?thesis by (intro mult_strict_right_mono) auto
  qed
  also have "\<dots> = 2 powi (53 + j)" by (simp add: power_int_add)
  finally have "bexp \<bar>x\<bar> < 53 + j" using False by (intro bexp_less) auto
  then have qj: "q \<le> j" using assms(3) by (simp add: q_def)
  have "x / 2 powi q = of_int m * 2 powi (j - q)"
    by (simp add: assms(1) power_int_diff)
  also have "\<dots> = of_int (m * 2 ^ nat (j - q))"
    using qj by (simp add: power_int_def)
  finally have "round_even (x / 2 powi q) = m * 2 ^ nat (j - q)" by (simp only: round_even_of_int)
  then have "rd x = of_int (m * 2 ^ nat (j - q)) * 2 powi q"
    using False by (simp add: rd_def q_def Let_def)
  also have "\<dots> = of_int m * (2 powi (j - q) * 2 powi q)"
    using qj by (simp add: power_int_def)
  also have "\<dots> = x" by (simp add: assms(1) power_int_diff)
  finally show ?thesis .
qed

lemma rd_of_int: "\<bar>m\<bar> < 2 ^ 53 \<Longrightarrow> rd (of_int m) = of_int m"
  using rd_exact[of "of_int m" m 0] by (simp add: emin_def)

lemma rd_of_nat: "n < 2 ^ 53 \<Longrightarrow> rd (real n) = real n"
  using rd_of_int[of "int n"] by simp

lemma rd_grid: "\<exists>n::int. rd x = of_int n * 2 powi emin"
proof (cases "x = 0")
  case True
  then show ?thesis by (auto simp: rd_def intro: exI[of _ 0])
next
  case False
  define q where "q = max (bexp \<bar>x\<bar> - 52) emin"
  have q: "emin \<le> q" by (simp add: q_def)
  define N where "N = round_even (x / 2 powi q)"
  have r: "rd x = of_int N * 2 powi q"
    using False by (simp add: rd_def q_def Let_def N_def)
  have "2 powi q = (2::real) powi (q - emin) * 2 powi emin"
    by (simp flip: power_int_add)
  also have "(2::real) powi (q - emin) = of_int (2 ^ nat (q - emin))"
    using q by (simp add: power_int_def)
  finally have p: "2 powi q = real_of_int (2 ^ nat (q - emin)) * 2 powi emin" .
  have "rd x = of_int (N * 2 ^ nat (q - emin)) * 2 powi emin"
    unfolding r p by simp
  then show ?thesis by blast
qed

lemma rd_err:
  "\<bar>rd x - x\<bar> \<le> max (\<bar>x\<bar> / 2 ^ 53) (2 powi (emin - 1))"
proof (cases "x = 0")
  case True
  then show ?thesis by (simp add: rd_def)
next
  case False
  define q where "q = max (bexp \<bar>x\<bar> - 52) emin"
  have pos: "(0::real) < 2 powi q" by simp
  have "rd x - x = (of_int (round_even (x / 2 powi q)) - x / 2 powi q) * 2 powi q"
    using False by (simp add: rd_def q_def Let_def algebra_simps)
  then have "\<bar>rd x - x\<bar> = \<bar>of_int (round_even (x / 2 powi q)) - x / 2 powi q\<bar> * 2 powi q"
    by (simp add: abs_mult)
  also have "\<dots> \<le> 1 / 2 * 2 powi q"
    using round_even_err[of "x / 2 powi q"] pos by (intro mult_right_mono) auto
  also have "\<dots> = 2 powi (q - 1)" by (simp add: power_int_diff)
  finally have e: "\<bar>rd x - x\<bar> \<le> 2 powi (q - 1)" .
  show ?thesis
  proof (cases "bexp \<bar>x\<bar> - 52 \<le> emin")
    case True
    then have "q = emin" by (simp add: q_def)
    then show ?thesis using e by simp
  next
    case F: False
    then have "q = bexp \<bar>x\<bar> - 52" by (simp add: q_def)
    then have "(2::real) powi (q - 1) = 2 powi bexp \<bar>x\<bar> / 2 ^ 53"
      by (simp add: power_int_diff)
    also have "\<dots> \<le> \<bar>x\<bar> / 2 ^ 53"
      using bexp_bounds[of "\<bar>x\<bar>"] False by (intro divide_right_mono) auto
    finally show ?thesis using e by simp
  qed
qed

lemma rd_dyadic:
  assumes "\<bar>m\<bar> < 2 ^ 53" and "k \<le> 1074"
  shows "rd (of_int m / 2 ^ k) = of_int m / 2 ^ k"
proof -
  have "real_of_int m / 2 ^ k = of_int m * 2 powi (- int k)"
    by (simp add: power_int_minus field_simps)
  moreover have "emin \<le> - int k" using assms(2) by (simp add: emin_def)
  ultimately show ?thesis using rd_exact[OF _ assms(1)] by metis
qed

lemma rd_dyadic_nat:
  assumes "n < 2 ^ 53" and "k \<le> 1074"
  shows "rd (real n / 2 ^ k) = real n / 2 ^ k"
  using rd_dyadic[of "int n" k] assms by simp

lemmas rd_eval = rd_def bexp_def bexp_up.simps bexp_dn.simps round_even_def emin_def Let_def

text \<open>
  The stepping loop ends: the doubles lie on the grid of spacing \<open>2^-1074\<close>, and every
  round moves the counter up by at least one point of the grid.
\<close>

termination for_step
proof (relation "measure (\<lambda>(a, bound, step, body, s).
         nat (\<lceil>bound * 2 powi (- emin)\<rceil> - \<lfloor>a * 2 powi (- emin)\<rfloor>))")
  show "wf (measure (\<lambda>(a, bound, step, body, s).
         nat (\<lceil>bound * 2 powi (- emin)\<rceil> - \<lfloor>a * 2 powi (- emin)\<rfloor>)))"
    by simp
next
  fix a bound step :: real and body :: "real \<Rightarrow> 's \<Rightarrow> 's option" and s x2 :: 's
  assume lt: "a < bound" and up: "\<not> jadd a step \<le> a"
  define S :: real where "S = 2 powi (- emin)"
  have S: "0 < S" by (simp add: S_def)
  obtain n :: int where n: "jadd a step = of_int n * 2 powi emin"
    unfolding jadd_def using rd_grid by blast
  have "2 powi emin * S = (1::real)"
    by (simp add: S_def power_int_minus)
  then have g: "jadd a step * S = of_int n" by (simp add: n)
  have "a * S < jadd a step * S" using up S by simp
  then have "a * S < of_int n" by (simp only: g)
  then have 1: "\<lfloor>a * S\<rfloor> < n" by (simp add: floor_less_iff)
  have 2: "\<lfloor>jadd a step * S\<rfloor> = n" by (simp only: g floor_of_int)
  have "a * S < bound * S" using lt S by simp
  then have "of_int \<lfloor>a * S\<rfloor> < bound * S"
    using of_int_floor_le[of "a * S"] by linarith
  then have 3: "\<lfloor>a * S\<rfloor> < \<lceil>bound * S\<rceil>" by (simp add: less_ceiling_iff)
  have "nat (\<lceil>bound * S\<rceil> - \<lfloor>jadd a step * S\<rfloor>) < nat (\<lceil>bound * S\<rceil> - \<lfloor>a * S\<rfloor>)"
    using 1 2 3 by linarith
  then show "((jadd a step, bound, step, body, x2), (a, bound, step, body, s))
      \<in> measure (\<lambda>(a, bound, step, body, s).
           nat (\<lceil>bound * 2 powi (- emin)\<rceil> - \<lfloor>a * 2 powi (- emin)\<rfloor>))"
    by (simp add: S_def)
qed

declare for_step.simps [simp del]

section \<open>The random stream: properties\<close>

lemma next_rng_state: "SeededRandom.seed (snd (next_rng r)) < 4294967296"
  by (simp add: next_rng_def Let_def)

lemma next_rng_value:
  "fst (next_rng r) = real (SeededRandom.seed (snd (next_rng r))) / 2 ^ 32"
proof -
  let ?s = "SeededRandom.seed (snd (next_rng r))"
  have "?s < 2 ^ 53" using next_rng_state[of r] by simp
  then have "rd (real ?s / 2 ^ 32) = real ?s / 2 ^ 32" by (intro rd_dyadic_nat) simp_all
  then show ?thesis by (simp add: next_rng_def Let_def jdiv_def)
qed

lemma next_rng_bounds: "0 \<le> fst (next_rng r) \<and> fst (next_rng r) < 1"
proof -
  have "real (SeededRandom.seed (snd (next_rng r))) < 4294967296"
    using next_rng_state[of r] by (metis of_nat_less_iff of_nat_numeral)
  then show ?thesis by (simp add: next_rng_value)
qed

lemma next_rng_exact:
  assumes "SeededRandom.seed r * 1664525 + 1013904223 < 2 ^ 53"
  shows "next_rng r =
     (real ((SeededRandom.seed r * 1664525 + 1013904223) mod 2 ^ 32) / 2 ^ 32,
      SeededRandom ((SeededRandom.seed r * 1664525 + 1013904223) mod 2 ^ 32))"
proof -
  let ?s = "SeededRandom.seed r"
  have p: "?s * 1664525 < 2 ^ 53" using assms by simp
  have "jmul (real ?s) 1664525 = real (?s * 1664525)"
    using rd_of_nat[OF p] by (simp add: jmul_def)
  then have "jadd (jmul (real ?s) 1664525) 1013904223 = real (?s * 1664525 + 1013904223)"
    using rd_of_nat[OF assms] by (simp add: jadd_def)
  then have "nat \<lfloor>jadd (jmul (real ?s) 1664525) 1013904223\<rfloor> = ?s * 1664525 + 1013904223"
    by (simp only: floor_of_nat nat_int)
  then have s: "SeededRandom.seed (snd (next_rng r)) = (?s * 1664525 + 1013904223) mod 2 ^ 32"
    by (simp add: next_rng_def Let_def)
  show ?thesis
    using next_rng_value[of r] s by (metis SeededRandom.collapse prod.collapse)
qed

lemma next_rng_32:
  "SeededRandom.seed r < 2 ^ 32 \<Longrightarrow> SeededRandom.seed r * 1664525 + 1013904223 < 2 ^ 53"
  by simp

lemma snd_range_rng [simp]: "snd (range_rng a b r) = snd (next_rng r)"
  by (simp add: range_rng_def split_beta)

lemma fst_range_rng:
  "fst (range_rng mn (Some mx) r) = jadd mn (jmul (fst (next_rng r)) (jsub mx mn))"
  by (simp add: range_rng_def split_beta)

lemma range_rng_exact:
  assumes mn: "mn = of_int a / 2 ^ s" and mx: "mx = of_int b / 2 ^ s"
    and a: "\<bar>a\<bar> \<le> 2 ^ 19" and b: "\<bar>b\<bar> \<le> 2 ^ 19" and s: "s \<le> 1000"
  shows "fst (range_rng mn (Some mx) r) = mn + fst (next_rng r) * (mx - mn)"
proof -
  define k where "k = int (SeededRandom.seed (snd (next_rng r)))"
  have k: "0 \<le> k" "k < 2 ^ 32" using next_rng_state[of r] by (simp_all add: k_def)
  have v: "fst (next_rng r) = of_int k / 2 ^ 32" by (simp add: next_rng_value k_def)
  have d0: "\<bar>b - a\<bar> \<le> 2 ^ 20" using a b by simp
  have "mx - mn = of_int (b - a) / 2 ^ s" by (simp add: mn mx diff_divide_distrib)
  moreover have "rd (of_int (b - a) / 2 ^ s) = of_int (b - a) / 2 ^ s"
    using d0 s by (intro rd_dyadic) simp_all
  ultimately have d: "jsub mx mn = of_int (b - a) / 2 ^ s" by (simp add: jsub_def)
  have m1: "\<bar>k * (b - a)\<bar> \<le> 2 ^ 32 * 2 ^ 20"
    unfolding abs_mult using k d0 by (intro mult_mono) simp_all
  have "fst (next_rng r) * (of_int (b - a) / 2 ^ s) = of_int (k * (b - a)) / 2 ^ (32 + s)"
    by (simp add: v power_add)
  moreover have "rd (of_int (k * (b - a)) / 2 ^ (32 + s)) = of_int (k * (b - a)) / 2 ^ (32 + s)"
    using m1 s by (intro rd_dyadic) simp_all
  ultimately have p: "jmul (fst (next_rng r)) (jsub mx mn) = of_int (k * (b - a)) / 2 ^ (32 + s)"
    by (simp add: jmul_def d)
  have "\<bar>a * 2 ^ 32\<bar> \<le> 2 ^ 19 * 2 ^ 32" using a by (simp add: abs_mult)
  with m1 have m2: "\<bar>a * 2 ^ 32 + k * (b - a)\<bar> < 2 ^ 53" by simp
  have "mn + of_int (k * (b - a)) / 2 ^ (32 + s) =
        of_int (a * 2 ^ 32 + k * (b - a)) / 2 ^ (32 + s)"
    by (simp add: mn power_add add_divide_distrib)
  moreover have "rd (of_int (a * 2 ^ 32 + k * (b - a)) / 2 ^ (32 + s)) =
        of_int (a * 2 ^ 32 + k * (b - a)) / 2 ^ (32 + s)"
    using m2 s by (intro rd_dyadic) simp_all
  ultimately have "jadd mn (jmul (fst (next_rng r)) (jsub mx mn)) =
      mn + of_int (k * (b - a)) / 2 ^ (32 + s)"
    by (simp add: jadd_def p)
  also have "\<dots> = mn + fst (next_rng r) * (mx - mn)"
    by (simp add: v mn mx power_add diff_divide_distrib algebra_simps)
  finally show ?thesis by (simp add: fst_range_rng)
qed


lemma range_rng_unit:
  assumes "mx = of_int b / 2 ^ s" and "\<bar>b\<bar> \<le> 2 ^ 19" and "s \<le> 1000"
  shows "fst (range_rng 0 (Some mx) r) = fst (next_rng r) * mx"
  using range_rng_exact[of 0 0 s mx b r] assms by simp


lemma snd_int_rng [simp]: "snd (int_rng a b r) = snd (next_rng r)"
  by (simp add: int_rng_def split_beta)

lemma snd_choice [simp]: "snd (choice xs r) = snd (next_rng r)"
  by (simp add: choice_def split_beta)

lemma snd_boolean [simp]: "snd (boolean b r) = snd (next_rng r)"
  by (simp add: boolean_def split_beta)




lemma next_rng_small:
  "SeededRandom.seed r < 4294967296 \<Longrightarrow>
   next_rng r =
     (real ((SeededRandom.seed r * 1664525 + 1013904223) mod 4294967296) / 4294967296,
      SeededRandom ((SeededRandom.seed r * 1664525 + 1013904223) mod 4294967296))"
  using next_rng_exact[of r] by simp




section \<open>Trait manifest: properties\<close>

lemma trait_portalFrame_eq:
  "trait_portalFrame e =
     e\<lparr>metadata := \<lparr>traits = traits (metadata e) @
        [\<lparr>name = ''Portal Frame'',
          value = js_lookup portalTypes (socketShape e) @ '' ('' @
            str_of_tenths (jdiv (real_of_int (js_round
              (jmul (jdiv (jsub (socketSize e) 80) (jsub 140 80)) 10))) 10)
            @ '')''\<rparr>]\<rparr>\<rparr>"
  by (simp add: trait_portalFrame_def push_trait_def)

lemma trait_scleraEssence_eq:
  "trait_scleraEssence e =
     e\<lparr>rng := snd (next_rng (rng e)),
       metadata := \<lparr>traits = traits (metadata e) @
        [\<lparr>name = ''Sclera Essence'',
          value = getColorName (scleraColor e) @ '' '' @
            js_lookup scleraNames (scleraTexture e) @ '' ('' @
            toFixed1 (fst (range_rng 1 (Some 10) (rng e))) @ '')''\<rparr>]\<rparr>\<rparr>"
  by (simp add: trait_scleraEssence_def push_trait_def split_beta range_rng_def)

lemma trait_irisConstellation_eq:
  "trait_irisConstellation e =
     e\<lparr>metadata := \<lparr>traits = traits (metadata e) @
        [\<lparr>name = ''Iris Constellation'',
          value = getColorName (irisColor1 e) @ '' '' @
            js_lookup irisPatterns (irisPattern e) @ '' ('' @
            str_of_tenths (jdiv (real_of_int (js_round
              (jmul (jdiv (jsub (irisSize e) 40) (jsub 80 40)) 10))) 10)
            @ '')''\<rparr>]\<rparr>\<rparr>"
  by (simp add: trait_irisConstellation_def push_trait_def)

lemma trait_pupilGate_eq:
  "trait_pupilGate e =
     e\<lparr>metadata := \<lparr>traits = traits (metadata e) @
        [\<lparr>name = ''Pupil Gate'',
          value = getColorName (pupilColor e) @ '' '' @
            js_lookup pupilTypes (pupilShape e) @ '' ('' @
            str_of_tenths (jdiv (real_of_int (js_round
              (jmul (jdiv (jsub (pupilSize e) 15) (jsub 35 15)) 10))) 10)
            @ '')''\<rparr>]\<rparr>\<rparr>"
  by (simp add: trait_pupilGate_def push_trait_def)

lemma trait_arcanePowers_eq:
  "trait_arcanePowers e =
     e\<lparr>rng := (if powers_of e = [] then rng e else snd (next_rng (rng e))),
       metadata := \<lparr>traits = traits (metadata e) @
        [\<lparr>name = ''Arcane Powers'', value = arcanePowers_value e\<rparr>]\<rparr>\<rparr>"
  by (simp add: trait_arcanePowers_def push_trait_def split_beta range_rng_def
      arcanePowers_value_def Let_def)

lemma trait_essenceType_eq:
  "trait_essenceType e =
     e\<lparr>metadata := \<lparr>traits = traits (metadata e) @
        [\<lparr>name = ''Essence Type'',
          value = js_lookup essenceTypes (style e) @ '' ('' @
            toFixed1 (jmul (intensity e) 10) @ '')''\<rparr>]\<rparr>\<rparr>"
  by (simp add: trait_essenceType_def push_trait_def)

lemmas trait_eqs = trait_portalFrame_eq trait_scleraEssence_eq trait_irisConstellation_eq
  trait_pupilGate_eq trait_arcanePowers_eq trait_essenceType_eq

lemma powers_of_upd [simp]:
  "powers_of (e\<lparr>rng := r\<rparr>) = powers_of e"
  "powers_of (e\<lparr>metadata := m\<rparr>) = powers_of e"
  by (simp_all add: powers_of_def)

lemma arcanePowers_value_upd [simp]:
  "arcanePowers_value (e\<lparr>metadata := m\<rparr>) = arcanePowers_value e"
  by (simp add: arcanePowers_value_def)

lemma generateMetadata_names:
  "map name (traits (metadata (generateMetadata e))) =
     [''Portal Frame'', ''Sclera Essence'', ''Iris Constellation'', ''Pupil Gate'',
      ''Arcane Powers'', ''Essence Type'']"
  by (simp add: generateMetadata_def trait_eqs Let_def)

lemma generateMetadata_rng:
  "rng (generateMetadata e) =
     (if powers_of e = [] then snd (next_rng (rng e))
      else snd (next_rng (snd (next_rng (rng e)))))"
  by (simp add: generateMetadata_def trait_eqs Let_def)

lemma generateMetadata_powers:
  "traits (metadata (generateMetadata e)) ! 4 =
     \<lparr>name = ''Arcane Powers'', value = arcanePowers_value (e\<lparr>rng := snd (next_rng (rng e))\<rparr>)\<rparr>"
  by (simp add: generateMetadata_def trait_eqs Let_def arcanePowers_value_def powers_of_def)

lemma generateMetadata_sclera:
  "traits (metadata (generateMetadata e)) ! 1 =
     \<lparr>name = ''Sclera Essence'',
      value = getColorName (scleraColor e) @ '' '' @
            js_lookup scleraNames (scleraTexture e) @ '' ('' @
            toFixed1 (fst (range_rng 1 (Some 10) (rng e))) @ '')''\<rparr>"
  by (simp add: generateMetadata_def trait_eqs Let_def)

lemma generateMetadata_frame:
  "generateMetadata e =
     e\<lparr>rng := rng (generateMetadata e), metadata := metadata (generateMetadata e)\<rparr>"
  by (simp add: generateMetadata_def trait_eqs Let_def)

section \<open>Construction: properties\<close>

lemma assign_on_canvas:
  assumes "\<And>e. d (on_canvas cw ch e) = (fst (d e), on_canvas cw ch (snd (d e)))"
    and "\<And>f e. upd f (on_canvas cw ch e) = on_canvas cw ch (upd f e)"
  shows "assign upd d (on_canvas cw ch e) = on_canvas cw ch (assign upd d e)"
  by (simp add: assign_def assms split_beta)

lemma draws_on_canvas:
  "pick xs (on_canvas cw ch e) = (fst (pick xs e), on_canvas cw ch (snd (pick xs e)))"
  "draw_range a b (on_canvas cw ch e) =
     (fst (draw_range a b e), on_canvas cw ch (snd (draw_range a b e)))"
  "draw_boolean pr (on_canvas cw ch e) =
     (fst (draw_boolean pr e), on_canvas cw ch (snd (draw_boolean pr e)))"
  "generateColor t (on_canvas cw ch e) =
     (fst (generateColor t e), on_canvas cw ch (snd (generateColor t e)))"
  by (simp_all add: pick_def draw_range_def draw_boolean_def generateColor_def on_canvas_def
      split_beta Let_def)

lemma updates_on_canvas:
  "socketShape_update f1 (on_canvas cw ch e) = on_canvas cw ch (socketShape_update f1 e)"
  "socketSize_update f2 (on_canvas cw ch e) = on_canvas cw ch (socketSize_update f2 e)"
  "socketColor_update f3 (on_canvas cw ch e) = on_canvas cw ch (socketColor_update f3 e)"
  "scleraColor_update f3 (on_canvas cw ch e) = on_canvas cw ch (scleraColor_update f3 e)"
  "scleraTexture_update f1 (on_canvas cw ch e) = on_canvas cw ch (scleraTexture_update f1 e)"
  "irisSize_update f2 (on_canvas cw ch e) = on_canvas cw ch (irisSize_update f2 e)"
  "irisShape_update f1 (on_canvas cw ch e) = on_canvas cw ch (irisShape_update f1 e)"
  "irisColor1_update f3 (on_canvas cw ch e) = on_canvas cw ch (irisColor1_update f3 e)"
  "irisColor2_update f3 (on_canvas cw ch e) = on_canvas cw ch (irisColor2_update f3 e)"
  "irisPattern_update f1 (on_canvas cw ch e) = on_canvas cw ch (irisPattern_update f1 e)"
  "pupilSize_update f2 (on_canvas cw ch e) = on_canvas cw ch (pupilSize_update f2 e)"
  "pupilShape_update f1 (on_canvas cw ch e) = on_canvas cw ch (pupilShape_update f1 e)"
  "pupilColor_update f3 (on_canvas cw ch e) = on_canvas cw ch (pupilColor_update f3 e)"
  "hasGlow_update f4 (on_canvas cw ch e) = on_canvas cw ch (hasGlow_update f4 e)"
  "hasLaser_update f4 (on_canvas cw ch e) = on_canvas cw ch (hasLaser_update f4 e)"
  "hasAura_update f4 (on_canvas cw ch e) = on_canvas cw ch (hasAura_update f4 e)"
  "hasParticles_update f4 (on_canvas cw ch e) = on_canvas cw ch (hasParticles_update f4 e)"
  "hasLightning_update f4 (on_canvas cw ch e) = on_canvas cw ch (hasLightning_update f4 e)"
  "animationEnergy_update f2 (on_canvas cw ch e) =
     on_canvas cw ch (animationEnergy_update f2 e)"
  "effectColor_update f3 (on_canvas cw ch e) = on_canvas cw ch (effectColor_update f3 e)"
  "laserColor_update f3 (on_canvas cw ch e) = on_canvas cw ch (laserColor_update f3 e)"
  "auraColor_update f3 (on_canvas cw ch e) = on_canvas cw ch (auraColor_update f3 e)"
  "style_update f1 (on_canvas cw ch e) = on_canvas cw ch (style_update f1 e)"
  "intensity_update f2 (on_canvas cw ch e) = on_canvas cw ch (intensity_update f2 e)"
  "animationSpeed_update f2 (on_canvas cw ch e) = on_canvas cw ch (animationSpeed_update f2 e)"
  "time_update f2 (on_canvas cw ch e) = on_canvas cw ch (time_update f2 e)"
  "rng_update f5 (on_canvas cw ch e) = on_canvas cw ch (rng_update f5 e)"
  "metadata_update f6 (on_canvas cw ch e) = on_canvas cw ch (metadata_update f6 e)"
  by (simp_all add: on_canvas_def)

lemma assign_properties_on_canvas:
  "assign_properties (on_canvas cw ch e) = on_canvas cw ch (assign_properties e)"
  by (simp add: assign_properties_def Let_def assign_on_canvas draws_on_canvas
      updates_on_canvas)

lemma on_canvas_fields [simp]:
  "rng (on_canvas cw ch e) = rng e"
  "metadata (on_canvas cw ch e) = metadata e"
  "socketShape (on_canvas cw ch e) = socketShape e"
  "socketSize (on_canvas cw ch e) = socketSize e"
  "scleraColor (on_canvas cw ch e) = scleraColor e"
  "scleraTexture (on_canvas cw ch e) = scleraTexture e"
  "irisSize (on_canvas cw ch e) = irisSize e"
  "irisColor1 (on_canvas cw ch e) = irisColor1 e"
  "irisPattern (on_canvas cw ch e) = irisPattern e"
  "pupilSize (on_canvas cw ch e) = pupilSize e"
  "pupilShape (on_canvas cw ch e) = pupilShape e"
  "pupilColor (on_canvas cw ch e) = pupilColor e"
  "style (on_canvas cw ch e) = style e"
  "intensity (on_canvas cw ch e) = intensity e"
  "powers_of (on_canvas cw ch e) = powers_of e"
  by (simp_all add: on_canvas_def powers_of_def)

lemma traits_on_canvas:
  "trait_portalFrame (on_canvas cw ch e) = on_canvas cw ch (trait_portalFrame e)"
  "trait_scleraEssence (on_canvas cw ch e) = on_canvas cw ch (trait_scleraEssence e)"
  "trait_irisConstellation (on_canvas cw ch e) = on_canvas cw ch (trait_irisConstellation e)"
  "trait_pupilGate (on_canvas cw ch e) = on_canvas cw ch (trait_pupilGate e)"
  "trait_arcanePowers (on_canvas cw ch e) = on_canvas cw ch (trait_arcanePowers e)"
  "trait_essenceType (on_canvas cw ch e) = on_canvas cw ch (trait_essenceType e)"
  by (simp_all add: trait_eqs on_canvas_def arcanePowers_value_def powers_of_def)

lemma generateMetadata_on_canvas:
  "generateMetadata (on_canvas cw ch e) = on_canvas cw ch (generateMetadata e)"
  by (simp add: generateMetadata_def Let_def traits_on_canvas updates_on_canvas)

lemma blank_on_canvas: "blank cw ch sd = on_canvas cw ch (blank cw' ch' sd)"
  by (simp add: blank_def on_canvas_def)

lemma new_Eyeball_on_canvas:
  "new_Eyeball sd cw ch = on_canvas cw ch (new_Eyeball sd cw' ch')"
proof -
  have "new_Eyeball sd cw ch =
      assign animationSpeed_update (draw_range (rd 0.01) (rd 0.05))
        ((generateMetadata (assign_properties (blank cw ch sd)))\<lparr>time := 0\<rparr>)"
    by (simp add: new_Eyeball_def generateProperties_def Let_def)
  also have "blank cw ch sd = on_canvas cw ch (blank cw' ch' sd)"
    by (rule blank_on_canvas)
  also have "assign animationSpeed_update (draw_range (rd 0.01) (rd 0.05))
        ((generateMetadata (assign_properties (on_canvas cw ch (blank cw' ch' sd))))\<lparr>time := 0\<rparr>)
      = on_canvas cw ch (new_Eyeball sd cw' ch')"
    by (simp add: new_Eyeball_def generateProperties_def Let_def assign_properties_on_canvas
        generateMetadata_on_canvas assign_on_canvas draws_on_canvas updates_on_canvas)
  finally show ?thesis .
qed

lemma powers_of_labels: "powers_of e = labels_of_active_flags e"
  by (simp add: powers_of_def labels_of_active_flags_def)

lemma powers_of_empty: "powers_of e = [] \<longleftrightarrow> \<not> any_flag e"
  by (simp add: powers_of_def any_flag_def)

lemma assign_draw_range:
  "assign upd (draw_range a b) e =
     upd (\<lambda>_. fst (range_rng a (Some b) (rng e))) (e\<lparr>rng := snd (next_rng (rng e))\<rparr>)"
  by (simp add: assign_def draw_range_def split_beta)

lemma new_Eyeball_eq:
  "new_Eyeball sd cw ch =
     (generateMetadata (assign_properties (blank cw ch sd)))
       \<lparr>time := 0,
        rng := snd (next_rng (rng (generateMetadata (assign_properties (blank cw ch sd))))),
        animationSpeed :=
          fst (range_rng (rd 0.01) (Some (rd 0.05))
                (rng (generateMetadata (assign_properties (blank cw ch sd)))))\<rparr>"
  by (simp add: new_Eyeball_def generateProperties_def Let_def assign_draw_range)

lemma flags_generateMetadata:
  "any_flag (generateMetadata e) = any_flag e"
  "labels_of_active_flags (generateMetadata e) = labels_of_active_flags e"
  by (subst generateMetadata_frame, simp add: any_flag_def labels_of_active_flags_def)+

lemma flags_new_Eyeball:
  "any_flag (new_Eyeball sd cw ch) = any_flag (assign_properties (blank cw ch sd))"
  "labels_of_active_flags (new_Eyeball sd cw ch) =
     labels_of_active_flags (assign_properties (blank cw ch sd))"
proof -
  let ?g = "generateMetadata (assign_properties (blank cw ch sd))"
  have "any_flag (new_Eyeball sd cw ch) = any_flag ?g"
    by (subst new_Eyeball_eq) (simp add: any_flag_def)
  then show "any_flag (new_Eyeball sd cw ch) = any_flag (assign_properties (blank cw ch sd))"
    by (simp add: flags_generateMetadata)
  have "labels_of_active_flags (new_Eyeball sd cw ch) = labels_of_active_flags ?g"
    by (subst new_Eyeball_eq) (simp add: labels_of_active_flags_def)
  then show "labels_of_active_flags (new_Eyeball sd cw ch) =
     labels_of_active_flags (assign_properties (blank cw ch sd))"
    by (simp add: flags_generateMetadata)
qed

lemma metadata_new_Eyeball:
  "metadata (new_Eyeball sd cw ch) = metadata (generateMetadata (assign_properties (blank cw ch sd)))"
  by (subst new_Eyeball_eq) simp

lemma next_rng_moves:
  assumes "SeededRandom.seed r < 4294967296"
  shows "SeededRandom.seed (snd (next_rng r)) \<noteq> SeededRandom.seed r"
proof -
  let ?s = "SeededRandom.seed r"
  have "even ((?s * 1664525 + 1013904223) mod 4294967296) = even (?s * 1664525 + 1013904223)"
    by (rule dvd_mod_iff) simp
  also have "\<dots> = odd ?s" by simp
  finally have "(?s * 1664525 + 1013904223) mod 4294967296 \<noteq> ?s" by auto
  then show ?thesis by (simp add: next_rng_small[OF assms])
qed

lemma next_rng_value_moves: "fst (next_rng (snd (next_rng r))) \<noteq> fst (next_rng r)"
  using next_rng_moves[OF next_rng_state, of r]
  by (simp add: next_rng_value)

text \<open>
  C1. Construction is a function of the seed. Two instances built from the same seed
  have the same attribute set (shapes, sizes, the seven colours, the five flags,
  animation energy, style, intensity) and the same ordered trait manifest, whatever the
  canvas sizes they are built for; and two streams that start from the same seed return
  the same results, and end in the same state, on every sequence of calls.
\<close>

theorem construction_deterministic:
  "spec_of (new_Eyeball sd cw ch) = spec_of (new_Eyeball sd cw' ch')
   \<and> traits (metadata (new_Eyeball sd cw ch)) = traits (metadata (new_Eyeball sd cw' ch'))
   \<and> (SeededRandom.seed r = SeededRandom.seed r' \<longrightarrow> run_calls cs r = run_calls cs r')"
proof (intro conjI impI)
  have eq: "new_Eyeball sd cw ch = on_canvas cw ch (new_Eyeball sd cw' ch')"
    by (rule new_Eyeball_on_canvas)
  show "spec_of (new_Eyeball sd cw ch) = spec_of (new_Eyeball sd cw' ch')"
    unfolding eq by (simp add: spec_of_def on_canvas_def)
  show "traits (metadata (new_Eyeball sd cw ch)) = traits (metadata (new_Eyeball sd cw' ch'))"
    unfolding eq by simp
next
  assume "SeededRandom.seed r = SeededRandom.seed r'"
  then have "r = r'" by (simp add: SeededRandom.expand)
  then show "run_calls cs r = run_calls cs r'" by simp
qed

theorem construction_deterministic_witness:
  "SeededRandom.seed (SeededRandom 42) = SeededRandom.seed (SeededRandom 42)
   \<and> run_calls [CallNext, CallBoolean None] (SeededRandom 42) =
       ([Num (1083814273 / 4294967296), Truth True], SeededRandom 378494188)"
  using construction_deterministic [where r = "SeededRandom 42" and r' = "SeededRandom 42"
      and cs = "[CallNext, CallBoolean None]"]
  by (simp add: next_rng_small boolean_def)

text \<open>
  C6. The trait manifest has exactly six entries, named Portal Frame, Sclera Essence,
  Iris Constellation, Pupil Gate, Arcane Powers and Essence Type in this order: for the
  manifest that \<open>generateMetadata\<close> builds from any state of the instance, hence for
  every combination of the five flags, and for the manifest of every constructed
  instance.
\<close>

theorem trait_manifest_complete:
  "map name (traits (metadata (generateMetadata e))) =
     [''Portal Frame'', ''Sclera Essence'', ''Iris Constellation'', ''Pupil Gate'',
      ''Arcane Powers'', ''Essence Type'']
   \<and> map name (traits (metadata (new_Eyeball sd cw ch))) =
     [''Portal Frame'', ''Sclera Essence'', ''Iris Constellation'', ''Pupil Gate'',
      ''Arcane Powers'', ''Essence Type'']
   \<and> length (traits (metadata (new_Eyeball sd cw ch))) = 6"
proof -
  have n: "map name (traits (metadata (generateMetadata e'))) =
     [''Portal Frame'', ''Sclera Essence'', ''Iris Constellation'', ''Pupil Gate'',
      ''Arcane Powers'', ''Essence Type'']" for e'
    by (rule generateMetadata_names)
  have m: "map name (traits (metadata (new_Eyeball sd cw ch))) =
     [''Portal Frame'', ''Sclera Essence'', ''Iris Constellation'', ''Pupil Gate'',
      ''Arcane Powers'', ''Essence Type'']"
    by (simp only: metadata_new_Eyeball n)
  have "length (map name (traits (metadata (new_Eyeball sd cw ch)))) = 6"
    by (simp only: m) simp
  then have "length (traits (metadata (new_Eyeball sd cw ch))) = 6"
    by (simp only: length_map)
  with n m show ?thesis by blast
qed

lemma length_powers_of: "length (powers_of e) \<le> 5"
  by (simp add: powers_of_def)

lemma range_rng_0_2: "fst (range_rng 0 (Some 2) r) = fst (next_rng r) * 2"
  using range_rng_unit[of 2 2 0 r] by simp

lemma powerLevel_exact:
  assumes "n \<le> 5"
  shows "jadd (jmul (real n) 2) (fst (range_rng 0 (Some 2) r)) =
         2 * real n + fst (range_rng 0 (Some 2) r)"
proof -
  define k where "k = SeededRandom.seed (snd (next_rng r))"
  have k: "k < 2 ^ 32" using next_rng_state[of r] by (simp add: k_def)
  have v: "fst (range_rng 0 (Some 2) r) = real k / 2 ^ 31"
    by (simp add: range_rng_0_2 next_rng_value k_def)
  have "rd (real (n * 2)) = real (n * 2)" using assms by (intro rd_of_nat) simp
  then have m: "jmul (real n) 2 = real (n * 2)" by (simp add: jmul_def)
  have "n * 2 * 2 ^ 31 \<le> 5 * 2 * 2 ^ 31" using assms by simp
  then have "n * 2 * 2 ^ 31 + k < 2 ^ 53" using k by simp
  then have "rd (real (n * 2 * 2 ^ 31 + k) / 2 ^ 31) = real (n * 2 * 2 ^ 31 + k) / 2 ^ 31"
    by (intro rd_dyadic_nat) simp_all
  moreover have "real (n * 2) + real k / 2 ^ 31 = real (n * 2 * 2 ^ 31 + k) / 2 ^ 31"
    by (simp add: add_divide_distrib)
  ultimately have "jadd (real (n * 2)) (real k / 2 ^ 31) = real (n * 2) + real k / 2 ^ 31"
    by (simp only: jadd_def)
  then show ?thesis by (simp add: m v)
qed

lemma powers_entry:
  "name (traits (metadata (generateMetadata e)) ! 4) = ''Arcane Powers''"
  "\<not> any_flag e \<Longrightarrow> value (traits (metadata (generateMetadata e)) ! 4) = ''Pure Essence (1.0)''"
  "any_flag e \<Longrightarrow> value (traits (metadata (generateMetadata e)) ! 4) =
     join '' + '' (labels_of_active_flags e) @ '' ('' @
     toFixed1 (2.0 * real (length (labels_of_active_flags e)) +
               fst (range_rng 0 (Some 2) (snd (next_rng (rng e))))) @ '')''"
  by (simp_all add: generateMetadata_powers arcanePowers_value_def powers_of_empty
      powers_of_labels[symmetric] powerLevel_exact[OF length_powers_of] mult.commute)

section \<open>Attribute generation draw by draw\<close>

lemma skip_0 [simp]: "skip 0 r = r"
  by (simp add: skip_def)

lemma skip_Suc: "skip (Suc n) r = skip n (snd (next_rng r))"
  unfolding skip_def by (induction n) simp_all

lemma skip_skip [simp]: "skip m (skip n r) = skip (m + n) r"
  by (simp add: skip_def funpow_add)

lemma next_skip [simp]: "snd (next_rng (skip n r)) = skip (Suc n) r"
  by (simp add: skip_def)

lemma next_skip0: "snd (next_rng r) = skip 1 r"
  by (simp add: skip_def)

lemma generateColor_eq:
  "generateColor t e = (color_of t (rng e), e\<lparr>rng := skip 4 (rng e)\<rparr>)"
  by (simp add: generateColor_def color_of_def split_beta Let_def next_skip0 eval_nat_numeral)

lemma assign_pick:
  "assign upd (pick xs) e =
     upd (\<lambda>_. the (fst (choice xs (rng e)))) (e\<lparr>rng := skip 1 (rng e)\<rparr>)"
  by (simp add: assign_def pick_def split_beta next_skip0)

lemma assign_range:
  "assign upd (draw_range a b) e =
     upd (\<lambda>_. fst (range_rng a (Some b) (rng e))) (e\<lparr>rng := skip 1 (rng e)\<rparr>)"
  by (simp add: assign_def draw_range_def split_beta next_skip0)

lemma assign_boolean:
  "assign upd (draw_boolean pr) e =
     upd (\<lambda>_. fst (boolean (Some pr) (rng e))) (e\<lparr>rng := skip 1 (rng e)\<rparr>)"
  by (simp add: assign_def draw_boolean_def split_beta next_skip0)

lemma assign_color:
  "assign upd (generateColor t) e =
     upd (\<lambda>_. color_of t (rng e)) (e\<lparr>rng := skip 4 (rng e)\<rparr>)"
  by (simp add: assign_def generateColor_eq)

lemma assign_properties_eq:
  "assign_properties e =
     e\<lparr>socketShape := the (fst (choice
         [''circle'', ''oval'', ''diamond'', ''almond'', ''star'', ''hexagon''] (rng e))),
       socketSize := fst (range_rng 80 (Some 140) (skip 1 (rng e))),
       socketColor := color_of ''socket'' (skip 2 (rng e)),
       scleraColor := color_of ''sclera'' (skip 6 (rng e)),
       scleraTexture := the (fst (choice
         [''smooth'', ''veined'', ''cloudy'', ''metallic'', ''crystalline'']
         (skip 10 (rng e)))),
       irisSize := fst (range_rng 40 (Some 80) (skip 11 (rng e))),
       irisShape := the (fst (choice
         [''circle'', ''oval'', ''star'', ''diamond'', ''octagon'', ''spiral'']
         (skip 12 (rng e)))),
       irisColor1 := color_of ''iris'' (skip 13 (rng e)),
       irisColor2 := color_of ''iris'' (skip 17 (rng e)),
       irisPattern := the (fst (choice
         [''solid'', ''radial'', ''spiral'', ''geometric'', ''fractal'', ''crystalline'',
          ''void''] (skip 21 (rng e)))),
       pupilSize := fst (range_rng 15 (Some 35) (skip 22 (rng e))),
       pupilShape := the (fst (choice
         [''circle'', ''slit'', ''star'', ''cross'', ''diamond'', ''multiple'', ''void'']
         (skip 23 (rng e)))),
       pupilColor := color_of ''pupil'' (skip 24 (rng e)),
       hasGlow := fst (boolean (Some (rd 0.6)) (skip 28 (rng e))),
       hasLaser := fst (boolean (Some (rd 0.3)) (skip 29 (rng e))),
       hasAura := fst (boolean (Some (rd 0.4)) (skip 30 (rng e))),
       hasParticles := fst (boolean (Some 0.5) (skip 31 (rng e))),
       hasLightning := fst (boolean (Some (rd 0.2)) (skip 32 (rng e))),
       animationEnergy := fst (range_rng (rd 0.1) (Some 1.0) (skip 33 (rng e))),
       effectColor := color_of ''effect'' (skip 34 (rng e)),
       laserColor := color_of ''laser'' (skip 38 (rng e)),
       auraColor := color_of ''aura'' (skip 42 (rng e)),
       style := the (fst (choice
         [''organic'', ''mechanical'', ''cosmic'', ''demonic'', ''angelic'', ''digital'',
          ''crystal''] (skip 46 (rng e)))),
       rng := skip 48 (rng e),
       intensity := fst (range_rng 0.5 (Some 1.5) (skip 47 (rng e)))\<rparr>"
  unfolding assign_properties_def Let_def
  by (simp add: assign_pick assign_range assign_boolean assign_color numeral_2_eq_2[symmetric])

lemma skip_numeral: "skip (numeral k) r = skip (pred_numeral k) (snd (next_rng r))"
  by (simp add: numeral_eq_Suc skip_Suc)

lemma skip_step: "skip n r = SeededRandom s \<Longrightarrow> skip (Suc n) r = snd (next_rng (SeededRandom s))"
  using next_skip[of n r] by simp

lemma skip_jump: "skip (m + n) r = skip m (skip n r)"
  by simp

lemma s4_28: "skip 28 (SeededRandom 4) = SeededRandom 2922888304"
  by (simp add: skip_numeral skip_Suc next_rng_small)

lemma s4_29: "skip 29 (SeededRandom 4) = SeededRandom 2974295311"
  using skip_step[OF s4_28] by (simp add: next_rng_small)

lemma s4_30: "skip 30 (SeededRandom 4) = SeededRandom 2589183778"
  using skip_step[OF s4_29] by (simp add: next_rng_small)

lemma s4_31: "skip 31 (SeededRandom 4) = SeededRandom 2978612249"
  using skip_step[OF s4_30] by (simp add: next_rng_small)

lemma s4_32: "skip 32 (SeededRandom 4) = SeededRandom 2760122020"
  using skip_step[OF s4_31] by (simp add: next_rng_small)

lemma s4_48: "skip 48 (SeededRandom 4) = SeededRandom 1716849652"
  using skip_jump[of 16 32 "SeededRandom 4"]
  by (simp add: s4_32 skip_numeral skip_Suc next_rng_small)

lemma s4_49: "skip 49 (SeededRandom 4) = SeededRandom 2086127299"
  using skip_step[OF s4_48] by (simp add: next_rng_small)

lemma s4_50: "skip 50 (SeededRandom 4) = SeededRandom 4011900230"
  using skip_step[OF s4_49] by (simp add: next_rng_small)

lemma s4_51: "skip 51 (SeededRandom 4) = SeededRandom 3898110957"
  using skip_step[OF s4_50] by (simp add: next_rng_small)

lemma s41_28: "skip 28 (SeededRandom 41) = SeededRandom 267660357"
  by (simp add: skip_numeral skip_Suc next_rng_small)

lemma s41_29: "skip 29 (SeededRandom 41) = SeededRandom 2822090976"
  using skip_step[OF s41_28] by (simp add: next_rng_small)

lemma s41_30: "skip 30 (SeededRandom 41) = SeededRandom 1904357055"
  using skip_step[OF s41_29] by (simp add: next_rng_small)

lemma s41_31: "skip 31 (SeededRandom 41) = SeededRandom 1867672850"
  using skip_step[OF s41_30] by (simp add: next_rng_small)

lemma s41_32: "skip 32 (SeededRandom 41) = SeededRandom 1641392457"
  using skip_step[OF s41_31] by (simp add: next_rng_small)

lemma s41_48: "skip 48 (SeededRandom 41) = SeededRandom 3658339289"
  using skip_jump[of 16 32 "SeededRandom 41"]
  by (simp add: s41_32 skip_numeral skip_Suc next_rng_small)

lemma s41_49: "skip 49 (SeededRandom 41) = SeededRandom 2176592740"
  using skip_step[OF s41_48] by (simp add: next_rng_small)

lemma s41_50: "skip 50 (SeededRandom 41) = SeededRandom 151715699"
  using skip_step[OF s41_49] by (simp add: next_rng_small)

lemma s41_51: "skip 51 (SeededRandom 41) = SeededRandom 100711990"
  using skip_step[OF s41_50] by (simp add: next_rng_small)

lemmas s4 = s4_28 s4_29 s4_30 s4_31 s4_32 s4_48 s4_49 s4_50 s4_51

lemmas s41 = s41_28 s41_29 s41_30 s41_31 s41_32 s41_48 s41_49 s41_50 s41_51

lemma rd_literals:
  "rd (3 / 5) = 5404319552844595 / 9007199254740992"
  "rd (3 / 10) = 5404319552844595 / 18014398509481984"
  "rd (2 / 5) = 3602879701896397 / 9007199254740992"
  "rd (1 / 5) = 3602879701896397 / 18014398509481984"
  "rd (1 / 10) = 3602879701896397 / 36028797018963968"
  "rd (1 / 100) = 5764607523034235 / 576460752303423488"
  "rd (1 / 20) = 3602879701896397 / 72057594037927936"
  "rd (17 / 20) = 7656119366529843 / 9007199254740992"
  by (simp_all add: rd_eval)

lemma flags_4:
  "\<not> hasGlow (assign_properties (blank 300 300 4))"
  "\<not> hasLaser (assign_properties (blank 300 300 4))"
  "\<not> hasAura (assign_properties (blank 300 300 4))"
  "\<not> hasParticles (assign_properties (blank 300 300 4))"
  "\<not> hasLightning (assign_properties (blank 300 300 4))"
  "rng (assign_properties (blank 300 300 4)) = SeededRandom 1716849652"
  by (simp_all add: assign_properties_eq blank_def s4 boolean_def next_rng_small rd_literals)

lemma flags_41:
  "\<not> hasGlow (assign_properties (blank 300 300 41))"
  "\<not> hasLaser (assign_properties (blank 300 300 41))"
  "\<not> hasAura (assign_properties (blank 300 300 41))"
  "hasParticles (assign_properties (blank 300 300 41))"
  "\<not> hasLightning (assign_properties (blank 300 300 41))"
  "rng (assign_properties (blank 300 300 41)) = SeededRandom 3658339289"
  by (simp_all add: assign_properties_eq blank_def s41 boolean_def next_rng_small rd_literals)

text \<open>
  C7. The fifth trait is named Arcane Powers. The array of powers holds the labels of
  exactly the flags that are set. With no flag set the value is the fixed text
  \<open>Pure Essence (1.0)\<close>. With a flag set the value is the labels joined by \<open>+\<close>,
  followed by the score printed with one decimal, where the score is twice the number of
  set flags plus a bonus in \<open>[0, 2)\<close>, the draw that follows the one of the sclera
  trait. The manifest and the flags of a constructed instance are those
  \<open>generateMetadata\<close> started from.
\<close>

theorem arcane_powers:
  "powers_of e = labels_of_active_flags e
   \<and> name (traits (metadata (generateMetadata e)) ! 4) = ''Arcane Powers''
   \<and> (\<not> any_flag e \<longrightarrow>
        value (traits (metadata (generateMetadata e)) ! 4) = ''Pure Essence (1.0)'')
   \<and> (any_flag e \<longrightarrow>
        (\<exists>bonus. bonus = fst (range_rng 0 (Some 2) (snd (next_rng (rng e))))
           \<and> 0 \<le> bonus \<and> bonus < 2
           \<and> value (traits (metadata (generateMetadata e)) ! 4) =
               join '' + '' (labels_of_active_flags e) @ '' ('' @
               toFixed1 (2.0 * real (length (labels_of_active_flags e)) + bonus) @ '')''))
   \<and> traits (metadata (new_Eyeball sd cw ch)) =
       traits (metadata (generateMetadata (assign_properties (blank cw ch sd))))
   \<and> any_flag (new_Eyeball sd cw ch) = any_flag (assign_properties (blank cw ch sd))
   \<and> labels_of_active_flags (new_Eyeball sd cw ch) =
       labels_of_active_flags (assign_properties (blank cw ch sd))"
proof -
  have b: "0 \<le> fst (range_rng 0 (Some 2) r) \<and> fst (range_rng 0 (Some 2) r) < 2" for r
    using next_rng_bounds[of r] by (simp add: range_rng_0_2)
  have gen: "any_flag e \<Longrightarrow>
        (\<exists>bonus. bonus = fst (range_rng 0 (Some 2) (snd (next_rng (rng e))))
           \<and> 0 \<le> bonus \<and> bonus < 2
           \<and> value (traits (metadata (generateMetadata e)) ! 4) =
               join '' + '' (labels_of_active_flags e) @ '' ('' @
               toFixed1 (2.0 * real (length (labels_of_active_flags e)) + bonus) @ '')'')"
    using b powers_entry(3)[of e] by blast
  show ?thesis
    using gen powers_entry(1,2)[of e]
    by (simp add: powers_of_labels metadata_new_Eyeball flags_new_Eyeball)
qed

theorem arcane_powers_witness:
  "\<not> any_flag (assign_properties (blank 300 300 4))
   \<and> value (traits (metadata (new_Eyeball 4 300 300)) ! 4) = ''Pure Essence (1.0)''
   \<and> any_flag (assign_properties (blank 300 300 41))
   \<and> value (traits (metadata (new_Eyeball 41 300 300)) ! 4) =
       ''Particle Storm (2.1)''"
proof -
  let ?a4 = "assign_properties (blank 300 300 4)"
  let ?a1 = "assign_properties (blank 300 300 41)"
  have n4: "\<not> any_flag ?a4" by (simp add: any_flag_def flags_4)
  have y1: "any_flag ?a1" by (simp add: any_flag_def flags_41)
  have l1: "labels_of_active_flags ?a1 = [''Particle Storm'']"
    by (simp add: labels_of_active_flags_def flags_41)
  have b1: "fst (range_rng 0 (Some 2) (snd (next_rng (rng ?a1)))) = 151715699 / 2147483648"
    by (simp add: flags_41 range_rng_0_2 next_rng_small)
  have t: "toFixed1 (2.0 * real (length [''Particle Storm'']) +
             151715699 / 2147483648) = ''2.1''"
    by (simp add: toFixed1_def show_nat.simps digit_char_def)
  from arcane_powers[of ?a4 4 300 300] n4
  have v4: "value (traits (metadata (new_Eyeball 4 300 300)) ! 4) = ''Pure Essence (1.0)''"
    by simp
  from arcane_powers[of ?a1 41 300 300] y1
  obtain bonus where
    bv: "bonus = fst (range_rng 0 (Some 2) (snd (next_rng (rng ?a1))))" and
    vv: "value (traits (metadata (generateMetadata ?a1)) ! 4) =
           join '' + '' (labels_of_active_flags ?a1) @ '' ('' @
           toFixed1 (2.0 * real (length (labels_of_active_flags ?a1)) + bonus) @ '')''" and
    tt: "traits (metadata (new_Eyeball 41 300 300)) = traits (metadata (generateMetadata ?a1))"
    by blast
  have "value (traits (metadata (generateMetadata ?a1)) ! 4) =
          join '' + '' [''Particle Storm''] @ '' ('' @ ''2.1'' @ '')''"
    unfolding vv bv b1 l1 t ..
  then have v1: "value (traits (metadata (new_Eyeball 41 300 300)) ! 4) =
       ''Particle Storm (2.1)''"
    by (simp add: tt)
  from n4 v4 y1 v1 show ?thesis by blast
qed

section \<open>Balanced drawing: properties\<close>

lemma depth_after_append:
  "depth_after (xs @ ys) d =
     (case depth_after xs d of None \<Rightarrow> None | Some d' \<Rightarrow> depth_after ys d')"
  by (induction xs d rule: depth_after.induct) (auto split: nat.splits)

lemma depth_after_shift:
  "depth_after xs d = Some d' \<Longrightarrow> depth_after xs (d + k) = Some (d' + k)"
  by (induction xs d rule: depth_after.induct) (auto split: nat.splits)

lemma balanced_Nil [simp]: "balanced []"
  by (simp add: balanced_def)

lemma balanced_append: "balanced xs \<Longrightarrow> balanced ys \<Longrightarrow> balanced (xs @ ys)"
  by (simp add: balanced_def depth_after_append)

lemma balanced_bracket: "balanced xs \<Longrightarrow> balanced (Save # xs @ [Restore])"
  using depth_after_shift[of xs 0 0 1]
  by (simp add: balanced_def depth_after_append)

lemma balanced_single: "c \<noteq> Save \<Longrightarrow> c \<noteq> Restore \<Longrightarrow> balanced [c]"
  by (cases c) (simp_all add: balanced_def)

lemma bal_ext_refl [simp]: "bal_ext p p"
  by (auto simp: bal_ext_def appends_def intro!: exI[of _ "[]"])

lemma appends_trans: "appends p q xs \<Longrightarrow> appends q r ys \<Longrightarrow> appends p r (xs @ ys)"
  by (simp add: appends_def)

lemma bal_ext_trans: "bal_ext p q \<Longrightarrow> bal_ext q r \<Longrightarrow> bal_ext p r"
  unfolding bal_ext_def using appends_trans balanced_append by blast

lemma appends_call: "appends p (call c p) [c]"
  by (simp add: appends_def call_def)

lemma bal_ext_call: "c \<noteq> Save \<Longrightarrow> c \<noteq> Restore \<Longrightarrow> bal_ext p (call c p)"
  unfolding bal_ext_def using appends_call balanced_single by blast

lemma bal_ext_bracket:
  assumes "bal_ext (push p) q"
  shows "bal_ext p (pop q)"
proof -
  from assms obtain ops where a: "appends (push p) q ops" and b: "balanced ops"
    unfolding bal_ext_def by blast
  have "appends p (pop q) (Save # ops @ [Restore])"
    using a by (simp add: appends_def push_def pop_def call_def)
  then show ?thesis
    unfolding bal_ext_def using balanced_bracket[OF b] by blast
qed

lemma bal_ext_pop: "bal_ext (push p1) q \<Longrightarrow> bal_ext p0 p1 \<Longrightarrow> bal_ext p0 (pop q)"
  using bal_ext_bracket bal_ext_trans by blast

lemma bal_ext_firstVertex: "bal_ext p0 q \<Longrightarrow> bal_ext p0 (q\<lparr>firstVertex := b\<rparr>)"
  by (simp add: bal_ext_def appends_def)

lemma bal_ext_step: "bal_ext q (f q) \<Longrightarrow> bal_ext p0 q \<Longrightarrow> bal_ext p0 (f q)"
  using bal_ext_trans by blast

lemma bal_prims:
  "bal_ext q (translate x y q)"
  "bal_ext q (rotate_by a q)"
  "bal_ext q (background r g b q)"
  "bal_ext q (fill r g b al q)"
  "bal_ext q (stroke r g b al q)"
  "bal_ext q (fillc c al q)"
  "bal_ext q (strokec c al q)"
  "bal_ext q (strokeWeight wt q)"
  "bal_ext q (noStroke q)"
  "bal_ext q (noFill q)"
  "bal_ext q (ellipse x y wd ht q)"
  "bal_ext q (line x1 y1 x2 y2 q)"
  "bal_ext q (rect x y wd ht q)"
  "bal_ext q (rectMode q)"
  "bal_ext q (beginShape q)"
  "bal_ext q (endShape cl q)"
  "bal_ext q (vertex x y q)"
  "bal_ext q (triangle x1 y1 x2 y2 x3 y3 q)"
  by (auto simp: translate_def rotate_by_def background_def fill_def stroke_def fillc_def
      strokec_def strokeWeight_def noStroke_def noFill_def ellipse_def line_def rect_def
      rectMode_def beginShape_def endShape_def vertex_def triangle_def Let_def split_beta
      intro!: bal_ext_step[OF bal_ext_call] bal_ext_firstVertex)

lemmas bal_peel =
  bal_prims[THEN bal_ext_step]

lemma for_lt_inv:
  "P s \<Longrightarrow> (\<And>i s. P s \<Longrightarrow> P (body i s)) \<Longrightarrow> P (for_lt a n body s)"
proof (induction a n body s rule: for_lt.induct)
  case (1 i n body s)
  then show ?case by (subst for_lt.simps) simp
qed

lemma for_le_inv:
  "P s \<Longrightarrow> (\<And>i s. P s \<Longrightarrow> P (body i s)) \<Longrightarrow> P (for_le a n body s)"
proof (induction a n body s rule: for_le.induct)
  case (1 i n body s)
  then show ?case by (subst for_le.simps) simp
qed

lemma for_gt0_inv:
  "P s \<Longrightarrow> (\<And>i s. P s \<Longrightarrow> P (body i s)) \<Longrightarrow> P (for_gt0 a body s)"
proof (induction a body s rule: for_gt0.induct)
  case (1 i body s)
  then show ?case by (subst for_gt0.simps) simp
qed

lemma fold_inv:
  "P s \<Longrightarrow> (\<And>x s. P s \<Longrightarrow> P (f x s)) \<Longrightarrow> P (fold f xs s)"
  by (induction xs arbitrary: s) simp_all

lemma bal_for_lt:
  "(\<And>i s. bal_ext s (body i s)) \<Longrightarrow> bal_ext p0 q \<Longrightarrow> bal_ext p0 (for_lt a n body q)"
  by (rule for_lt_inv) (auto intro: bal_ext_trans)

lemma bal_for_gt0:
  "(\<And>i s. bal_ext s (body i s)) \<Longrightarrow> bal_ext p0 q \<Longrightarrow> bal_ext p0 (for_gt0 a body q)"
  by (rule for_gt0_inv) (auto intro: bal_ext_trans)

lemma bal_fold:
  "(\<And>x s. bal_ext s (f x s)) \<Longrightarrow> bal_ext p0 q \<Longrightarrow> bal_ext p0 (fold f xs q)"
  by (rule fold_inv) (auto intro: bal_ext_trans)

lemmas bal_rules = bal_peel bal_for_lt bal_for_gt0 bal_fold bal_ext_pop bal_ext_firstVertex

lemma drawGlow_bal: "bal_ext p (drawGlow e p)"
  unfolding drawGlow_def Let_def
  by (rule bal_ext_refl bal_rules)+

lemma drawAura_bal: "bal_ext p (drawAura e p)"
  unfolding drawAura_def Let_def
  by (rule bal_ext_refl bal_rules)+

lemma drawHighlights_bal: "bal_ext p (drawHighlights e p)"
  unfolding drawHighlights_def Let_def
  by (rule bal_ext_refl bal_rules)+

lemma drawParticles_bal: "bal_ext p (drawParticles e p)"
  unfolding drawParticles_def Let_def
  by (rule bal_ext_refl bal_rules)+

lemma drawRadialPattern_bal: "bal_ext p (drawRadialPattern e p)"
  unfolding drawRadialPattern_def Let_def
  by (rule bal_ext_refl bal_rules)+

lemma drawGeometricPattern_bal: "bal_ext p (drawGeometricPattern e p)"
  unfolding drawGeometricPattern_def Let_def
  by (rule bal_ext_refl bal_rules)+

lemma drawCrystallinePattern_bal: "bal_ext p (drawCrystallinePattern e p)"
  unfolding drawCrystallinePattern_def Let_def
  by (rule bal_ext_refl bal_rules)+

lemma bal_if:
  "(c \<Longrightarrow> bal_ext p0 a) \<Longrightarrow> (\<not> c \<Longrightarrow> bal_ext p0 b) \<Longrightarrow> bal_ext p0 (if c then a else b)"
  by simp

lemma drawVoidPattern_bal: "bal_ext p (drawVoidPattern e p)"
  unfolding drawVoidPattern_def Let_def
  by (rule bal_ext_refl bal_rules bal_if)+

lemma drawFractalLayer_bal: "bal_ext p0 p \<Longrightarrow> bal_ext p0 (drawFractalLayer e p sz x y depth)"
proof (induction e p sz x y depth arbitrary: p0 rule: drawFractalLayer.induct)
  case (1 e p sz x y depth)
  show ?case
  proof (cases "depth \<le> 0 \<or> sz < 5")
    case True
    then show ?thesis using "1.prems" by (subst drawFractalLayer.simps) simp
  next
    case False
    let ?c = "map_num depth 0 4 1 0"
    let ?p1 = "ellipse x y sz sz (fillc (lerpc (irisColor1 e) (irisColor2 e) ?c) 150 p)"
    let ?n = "jmul sz (rd 0.6)" and ?o = "jmul sz (rd 0.3)"
    let ?p2 = "drawFractalLayer e ?p1 ?n (jsub x ?o) y (depth - 1)"
    let ?p3 = "drawFractalLayer e ?p2 ?n (jadd x ?o) y (depth - 1)"
    let ?p4 = "drawFractalLayer e ?p3 ?n x (jsub y ?o) (depth - 1)"
    have b1: "bal_ext p0 ?p1" by (rule bal_rules "1.prems")+
    have b2: "bal_ext p0 ?p2"
      using "1.IH"(1)[OF False refl refl refl refl refl b1] .
    have b3: "bal_ext p0 ?p3"
      using "1.IH"(2)[OF False refl refl refl refl refl refl b2] .
    have b4: "bal_ext p0 ?p4"
      using "1.IH"(3)[OF False refl refl refl refl refl refl refl b3] .
    have "bal_ext p0 (drawFractalLayer e ?p4 ?n x (jadd y ?o) (depth - 1))"
      using "1.IH"(4)[OF False refl refl refl refl refl refl refl refl b4] .
    then show ?thesis using False by (subst drawFractalLayer.simps) (simp add: Let_def)
  qed
qed

lemma drawFractalPattern_bal: "bal_ext p (drawFractalPattern e p)"
  unfolding drawFractalPattern_def by (rule drawFractalLayer_bal) simp

lemma drawLaser_bal: "bal_ext p (drawLaser e p)"
  unfolding drawLaser_def Let_def split_beta
  by (rule bal_ext_refl bal_rules bal_if)+

section \<open>The draws of the manifest and the animation speed\<close>

lemma tiny_le: "(2::real) powi (emin - 1) \<le> 1 / 2 ^ 117"
proof -
  have e: "emin - 1 \<le> - 117" by (simp add: emin_def)
  have o: "(1::real) \<le> 2" by simp
  have "(2::real) powi (emin - 1) \<le> 2 powi (- 117)"
    using e o by (rule power_int_increasing)
  also have "(2::real) powi (- 117) = 1 / 2 ^ 117"
    by (simp only: power_int_minus power_int_numeral inverse_eq_divide)
  finally show ?thesis .
qed

lemma rd_close:
  assumes "\<bar>x\<bar> \<le> B" and "1 / 2 ^ 64 \<le> B"
  shows "\<bar>rd x - x\<bar> \<le> B / 2 ^ 53"
proof -
  have "\<bar>x\<bar> / 2 ^ 53 \<le> B / 2 ^ 53" using assms(1) by (simp add: divide_right_mono)
  moreover have "(1::real) / 2 ^ 117 = (1 / 2 ^ 64) / 2 ^ 53" by simp
  then have "(1::real) / 2 ^ 117 \<le> B / 2 ^ 53"
    using assms(2) by (simp only: divide_right_mono zero_le_numeral zero_le_power)
  then have "(2::real) powi (emin - 1) \<le> B / 2 ^ 53" using tiny_le by linarith
  ultimately show ?thesis using rd_err[of x] by linarith
qed

lemma speed_width: "jsub (rd 0.05) (rd 0.01) = 5764607523034235 / 144115188075855872"
  by (simp add: jsub_def rd_literals) (simp add: rd_eval)

lemma speed_strict_mono:
  assumes "k1 < k2" and "k2 < (2::nat) ^ 32"
  shows "jadd (rd 0.01) (jmul (real k1 / 2 ^ 32) (jsub (rd 0.05) (rd 0.01))) <
         jadd (rd 0.01) (jmul (real k2 / 2 ^ 32) (jsub (rd 0.05) (rd 0.01)))"
proof -
  define D :: real where "D = 5764607523034235 / 144115188075855872"
  define L :: real where "L = 5764607523034235 / 576460752303423488"
  define v1 where "v1 = real k1 / 2 ^ 32"
  define v2 where "v2 = real k2 / 2 ^ 32"
  have D: "3 / 100 \<le> D" "D \<le> 5 / 100" by (simp_all add: D_def)
  have L: "0 \<le> L" "L \<le> 2 / 100" by (simp_all add: L_def)
  have "real k1 + 1 \<le> real k2" using assms(1) by linarith
  then have gap: "v1 + 1 / 2 ^ 32 \<le> v2"
    by (simp add: v1_def v2_def field_simps)
  have "real k2 < 2 ^ 32" using assms(2) by (metis of_nat_less_iff of_nat_numeral of_nat_power)
  then have v2: "v2 < 1" by (simp add: v2_def)
  have v1: "0 \<le> v1" by (simp add: v1_def)
  have v10: "v1 < 1" using gap v2 by simp
  have v20: "0 \<le> v2" using gap v1 by simp
  have b: "\<bar>v * D\<bar> \<le> 5 / 100" if "0 \<le> v" "v < 1" for v
  proof -
    have "v * D \<le> 1 * D" using that D by (intro mult_right_mono) simp_all
    moreover have "0 \<le> v * D" using that D by simp
    ultimately show ?thesis using D by linarith
  qed
  have e: "\<bar>rd (v * D) - v * D\<bar> \<le> (5 / 100) / 2 ^ 53" if "0 \<le> v" "v < 1" for v
    using b[OF that] by (intro rd_close) simp_all
  have f: "\<bar>rd (L + rd (v * D)) - (L + rd (v * D))\<bar> \<le> (8 / 100) / 2 ^ 53"
    if "0 \<le> v" "v < 1" for v
  proof -
    have "(5 / 100) / 2 ^ 53 \<le> (1 / 100 :: real)" by simp
    then have "\<bar>L + rd (v * D)\<bar> \<le> 8 / 100" using e[OF that] b[OF that] L by linarith
    then show ?thesis by (intro rd_close) simp_all
  qed
  have "(v2 - v1) * D \<ge> (1 / 2 ^ 32) * (3 / 100)"
    using gap D by (intro mult_mono) simp_all
  then have d: "v2 * D - v1 * D \<ge> (3 / 100) / 2 ^ 32" by (simp add: algebra_simps)
  have "(8 / 100) / 2 ^ 53 * 2 + (5 / 100) / 2 ^ 53 * 2 < ((3 / 100) / 2 ^ 32 :: real)" by simp
  then have "rd (L + rd (v1 * D)) < rd (L + rd (v2 * D))"
    using d e[OF v1 v10] e[OF v20 v2] f[OF v1 v10] f[OF v20 v2] by linarith
  then show ?thesis
    unfolding speed_width jadd_def jmul_def
    by (simp add: rd_literals D_def L_def v1_def v2_def)
qed

lemma speed_inj:
  assumes "SeededRandom.seed (snd (next_rng r1)) \<noteq> SeededRandom.seed (snd (next_rng r2))"
  shows "fst (range_rng (rd 0.01) (Some (rd 0.05)) r1) \<noteq>
         fst (range_rng (rd 0.01) (Some (rd 0.05)) r2)"
proof -
  let ?k1 = "SeededRandom.seed (snd (next_rng r1))" and ?k2 = "SeededRandom.seed (snd (next_rng r2))"
  have k: "?k1 < 2 ^ 32" "?k2 < 2 ^ 32" using next_rng_state by simp_all
  consider "?k1 < ?k2" | "?k2 < ?k1" using assms by linarith
  then show ?thesis
  proof cases
    case 1
    from speed_strict_mono[OF 1 k(2)] show ?thesis
      by (simp add: fst_range_rng next_rng_value)
  next
    case 2
    from speed_strict_mono[OF 2 k(1)] show ?thesis
      by (simp add: fst_range_rng next_rng_value)
  qed
qed

lemma animationSpeed_new_Eyeball:
  "animationSpeed (new_Eyeball sd cw ch) =
     fst (range_rng (rd 0.01) (Some (rd 0.05))
           (rng (generateMetadata (assign_properties (blank cw ch sd)))))"
  by (subst new_Eyeball_eq) simp

lemma rng_new_Eyeball:
  "rng (new_Eyeball sd cw ch) =
     snd (next_rng (rng (generateMetadata (assign_properties (blank cw ch sd)))))"
  by (subst new_Eyeball_eq) simp

lemma rng_assign_properties: "rng (assign_properties e) = skip 48 (rng e)"
  by (simp add: assign_properties_eq)

lemma generateMetadata_rng_flag:
  "rng (generateMetadata e) =
     (if any_flag e then snd (next_rng (snd (next_rng (rng e)))) else snd (next_rng (rng e)))"
  by (simp add: generateMetadata_rng powers_of_empty)

lemma speed_depends_on_flags:
  assumes "rng e1 = rng e2" and "\<not> any_flag e1" and "any_flag e2"
  shows "fst (range_rng (rd 0.01) (Some (rd 0.05)) (rng (generateMetadata e1))) \<noteq>
         fst (range_rng (rd 0.01) (Some (rd 0.05)) (rng (generateMetadata e2)))"
proof -
  let ?r = "snd (next_rng (rng e2))"
  have r1: "rng (generateMetadata e1) = ?r"
    using assms by (simp add: generateMetadata_rng_flag)
  have r2: "rng (generateMetadata e2) = snd (next_rng ?r)"
    using assms by (simp add: generateMetadata_rng_flag)
  have "SeededRandom.seed (snd (next_rng ?r)) \<noteq> SeededRandom.seed (snd (next_rng (snd (next_rng ?r))))"
    using next_rng_moves[OF next_rng_state, of "?r"] by simp
  then show ?thesis
    unfolding r1 r2 by (rule speed_inj)
qed

lemma speed_4:
  "fst (range_rng (rd 0.01) (Some (rd 0.05)) (SeededRandom 2086127299)) =
     3412916609545667 / 72057594037927936"
proof -
  have n: "fst (next_rng (SeededRandom 2086127299)) = 4011900230 / 4294967296"
    by (simp add: next_rng_small)
  have m: "jmul (4011900230 / 4294967296) (5764607523034235 / 144115188075855872) =
        5384681338332775 / 144115188075855872"
    by (simp add: jmul_def rd_eval)
  have a: "jadd (5764607523034235 / 576460752303423488)
        (5384681338332775 / 144115188075855872) = 3412916609545667 / 72057594037927936"
    by (simp add: jadd_def rd_eval)
  show ?thesis
    unfolding fst_range_rng speed_width n m by (simp add: rd_literals a)
qed

lemma speed_41:
  "fst (range_rng (rd 0.01) (Some (rd 0.05)) (SeededRandom 151715699)) =
     788162612780073 / 72057594037927936"
proof -
  have n: "fst (next_rng (SeededRandom 151715699)) = 100711990 / 4294967296"
    by (simp add: next_rng_small)
  have m: "jmul (100711990 / 4294967296) (5764607523034235 / 144115188075855872) =
        8651094067301581 / 9223372036854775808"
    by (simp add: jmul_def rd_eval)
  have a: "jadd (5764607523034235 / 576460752303423488)
        (8651094067301581 / 9223372036854775808) = 788162612780073 / 72057594037927936"
    by (simp add: jadd_def rd_eval)
  show ?thesis
    unfolding fst_range_rng speed_width n m by (simp add: rd_literals a)
qed

text \<open>
  C10. Building the trait manifest draws from the stream once for the rarity figure of
  the Sclera Essence trait, whatever the flags, and once more, for the bonus of the
  Arcane Powers trait, exactly when one of the five flags is set. The 48 draws of the
  attributes come before, and the animation speed is the draw that follows the
  manifest: the 50th draw of the stream when no flag is set and the 51st when one is.
  These two draws never give the same speed, so the speed of an instance depends on
  whether a flag is set.
\<close>

theorem metadata_draws:
  "rng (generateMetadata e) =
     (if any_flag e then snd (next_rng (snd (next_rng (rng e)))) else snd (next_rng (rng e)))
   \<and> value (traits (metadata (generateMetadata e)) ! 1) =
       getColorName (scleraColor e) @ '' '' @ js_lookup scleraNames (scleraTexture e) @
       '' ('' @ toFixed1 (fst (range_rng 1 (Some 10) (rng e))) @ '')''
   \<and> (any_flag e \<longrightarrow>
        value (traits (metadata (generateMetadata e)) ! 4) =
          join '' + '' (labels_of_active_flags e) @ '' ('' @
          toFixed1 (2.0 * real (length (labels_of_active_flags e)) +
                    fst (range_rng 0 (Some 2) (snd (next_rng (rng e))))) @ '')'')
   \<and> rng (assign_properties (blank cw ch sd)) = skip 48 (SeededRandom sd)
   \<and> animationSpeed (new_Eyeball sd cw ch) =
       fst (range_rng (rd 0.01) (Some (rd 0.05))
             (skip (if any_flag (new_Eyeball sd cw ch) then 50 else 49) (SeededRandom sd)))
   \<and> fst (range_rng (rd 0.01) (Some (rd 0.05)) (skip 50 r)) \<noteq>
       fst (range_rng (rd 0.01) (Some (rd 0.05)) (skip 49 r))
   \<and> (rng e1 = rng e2 \<and> \<not> any_flag e1 \<and> any_flag e2 \<longrightarrow>
        fst (range_rng (rd 0.01) (Some (rd 0.05)) (rng (generateMetadata e1))) \<noteq>
        fst (range_rng (rd 0.01) (Some (rd 0.05)) (rng (generateMetadata e2))))"
proof (intro conjI impI)
  show "rng (generateMetadata e) =
     (if any_flag e then snd (next_rng (snd (next_rng (rng e)))) else snd (next_rng (rng e)))"
    by (rule generateMetadata_rng_flag)
  show "value (traits (metadata (generateMetadata e)) ! 1) =
       getColorName (scleraColor e) @ '' '' @ js_lookup scleraNames (scleraTexture e) @
       '' ('' @ toFixed1 (fst (range_rng 1 (Some 10) (rng e))) @ '')''"
    unfolding generateMetadata_sclera by simp
  show b: "rng (assign_properties (blank cw ch sd)) = skip 48 (SeededRandom sd)"
    by (simp add: rng_assign_properties blank_def)
  let ?a = "assign_properties (blank cw ch sd)"
  have "rng (generateMetadata ?a) = skip (if any_flag ?a then 50 else 49) (SeededRandom sd)"
    by (simp add: generateMetadata_rng_flag b)
  then show "animationSpeed (new_Eyeball sd cw ch) =
       fst (range_rng (rd 0.01) (Some (rd 0.05))
             (skip (if any_flag (new_Eyeball sd cw ch) then 50 else 49) (SeededRandom sd)))"
    by (simp only: animationSpeed_new_Eyeball flags_new_Eyeball)
  have "skip 50 r = snd (next_rng (skip 49 r))" by simp
  moreover have "SeededRandom.seed (snd (next_rng (snd (next_rng (skip 49 r))))) \<noteq>
      SeededRandom.seed (snd (next_rng (skip 49 r)))"
    by (rule next_rng_moves[OF next_rng_state])
  ultimately show "fst (range_rng (rd 0.01) (Some (rd 0.05)) (skip 50 r)) \<noteq>
       fst (range_rng (rd 0.01) (Some (rd 0.05)) (skip 49 r))"
    by (simp only: speed_inj not_False_eq_True)
next
  assume "any_flag e"
  then show "value (traits (metadata (generateMetadata e)) ! 4) =
          join '' + '' (labels_of_active_flags e) @ '' ('' @
          toFixed1 (2.0 * real (length (labels_of_active_flags e)) +
                    fst (range_rng 0 (Some 2) (snd (next_rng (rng e))))) @ '')''"
    by (rule powers_entry(3))
next
  assume "rng e1 = rng e2 \<and> \<not> any_flag e1 \<and> any_flag e2"
  then show "fst (range_rng (rd 0.01) (Some (rd 0.05)) (rng (generateMetadata e1))) \<noteq>
        fst (range_rng (rd 0.01) (Some (rd 0.05)) (rng (generateMetadata e2)))"
    using speed_depends_on_flags by blast
qed

theorem metadata_draws_witness:
  "\<not> any_flag (new_Eyeball 4 300 300)
   \<and> animationSpeed (new_Eyeball 4 300 300) = 3412916609545667 / 72057594037927936
   \<and> any_flag (new_Eyeball 41 300 300)
   \<and> value (traits (metadata (generateMetadata (assign_properties (blank 300 300 41)))) ! 4) =
       ''Particle Storm (2.1)''
   \<and> animationSpeed (new_Eyeball 41 300 300) = 788162612780073 / 72057594037927936
   \<and> rng (assign_properties (blank 300 300 4)) =
       rng ((assign_properties (blank 300 300 41))\<lparr>rng := SeededRandom 1716849652\<rparr>)
   \<and> \<not> any_flag (assign_properties (blank 300 300 4))
   \<and> any_flag ((assign_properties (blank 300 300 41))\<lparr>rng := SeededRandom 1716849652\<rparr>)
   \<and> fst (range_rng (rd 0.01) (Some (rd 0.05))
         (rng (generateMetadata (assign_properties (blank 300 300 4))))) \<noteq>
       fst (range_rng (rd 0.01) (Some (rd 0.05))
         (rng (generateMetadata
            ((assign_properties (blank 300 300 41))\<lparr>rng := SeededRandom 1716849652\<rparr>))))"
proof -
  let ?a4 = "assign_properties (blank 300 300 4)"
  let ?a1 = "assign_properties (blank 300 300 41)"
  let ?e2 = "?a1\<lparr>rng := SeededRandom 1716849652\<rparr>"
  have n4: "\<not> any_flag ?a4" by (simp add: any_flag_def flags_4)
  have y1: "any_flag ?a1" by (simp add: any_flag_def flags_41)
  have y2: "any_flag ?e2" using y1 by (simp add: any_flag_def)
  have f4: "\<not> any_flag (new_Eyeball 4 300 300)" using n4 by (simp add: flags_new_Eyeball)
  have f1: "any_flag (new_Eyeball 41 300 300)" using y1 by (simp add: flags_new_Eyeball)
  have r: "rng ?a4 = rng ?e2" by (simp add: flags_4)
  note t4 = metadata_draws [where e = "?a1" and sd = 4 and cw = 300 and ch = 300
      and ?e1.0 = "?a4" and ?e2.0 = "?e2"]
  note t1 = metadata_draws [where sd = 41 and cw = 300 and ch = 300]
  from t4 have "animationSpeed (new_Eyeball 4 300 300) =
       fst (range_rng (rd 0.01) (Some (rd 0.05))
             (skip (if any_flag (new_Eyeball 4 300 300) then 50 else 49) (SeededRandom 4)))"
    by blast
  then have s4: "animationSpeed (new_Eyeball 4 300 300) =
      3412916609545667 / 72057594037927936"
    using f4 by (simp only: if_False s4_49 speed_4)
  from t1 have "animationSpeed (new_Eyeball 41 300 300) =
       fst (range_rng (rd 0.01) (Some (rd 0.05))
             (skip (if any_flag (new_Eyeball 41 300 300) then 50 else 49) (SeededRandom 41)))"
    by blast
  then have s1: "animationSpeed (new_Eyeball 41 300 300) =
      788162612780073 / 72057594037927936"
    using f1 by (simp only: if_True s41_50 speed_41)
  have l1: "labels_of_active_flags ?a1 = [''Particle Storm'']"
    by (simp add: labels_of_active_flags_def flags_41)
  have b1: "fst (range_rng 0 (Some 2) (snd (next_rng (rng ?a1)))) = 151715699 / 2147483648"
    by (simp add: flags_41 range_rng_0_2 next_rng_small)
  have t: "toFixed1 (2.0 * real (length [''Particle Storm'']) +
             151715699 / 2147483648) = ''2.1''"
    by (simp add: toFixed1_def show_nat.simps digit_char_def)
  from t4 y1 have "value (traits (metadata (generateMetadata ?a1)) ! 4) =
          join '' + '' (labels_of_active_flags ?a1) @ '' ('' @
          toFixed1 (2.0 * real (length (labels_of_active_flags ?a1)) +
                    fst (range_rng 0 (Some 2) (snd (next_rng (rng ?a1))))) @ '')''"
    by blast
  then have v: "value (traits (metadata (generateMetadata ?a1)) ! 4) = ''Particle Storm (2.1)''"
    unfolding b1 l1 t by simp
  from t4 r n4 y2 have d: "fst (range_rng (rd 0.01) (Some (rd 0.05)) (rng (generateMetadata ?a4))) \<noteq>
        fst (range_rng (rd 0.01) (Some (rd 0.05)) (rng (generateMetadata ?e2)))"
    by blast
  from f4 s4 f1 v s1 r n4 y2 d show ?thesis by blast
qed

section \<open>The recursive pattern: properties\<close>

lemma drawFractalLayer_total: "drawFractalLayer_dom a"
proof (induction a rule: measure_induct_rule[where f = "\<lambda>(e, p, sz, x, y, depth). nat \<lceil>depth\<rceil>"])
  case (less a)
  show ?case
  proof (rule accpI)
    fix b
    assume "drawFractalLayer_rel b a"
    then have "(case b of (e, p, sz, x, y, depth) \<Rightarrow> nat \<lceil>depth\<rceil>) <
               (case a of (e, p, sz, x, y, depth) \<Rightarrow> nat \<lceil>depth\<rceil>)"
      by (cases rule: drawFractalLayer_rel.cases)
        (simp_all add: nat_less_iff zero_less_ceiling)
    then show "drawFractalLayer_dom b" by (rule less)
  qed
qed

lemma appends_refl: "appends p p []"
  by (simp add: appends_def)

lemma appends_node:
  "appends p (ellipse x y sz sz (fillc c al p))
     [FillStyle (Rgba (fst c) (fst (snd c)) (snd (snd c)) (al / 255)), BeginPath,
      EllipsePath x y (sz / 2) (sz / 2) 0 0 TWO_PI, Fill]"
  by (simp add: appends_def ellipse_def fillc_def fill_def call_def split_beta)

lemma fractal_count:
  "\<exists>ops. appends p (drawFractalLayer e p sz x y (real n)) ops
         \<and> length ops \<le> 4 * nodes n \<and> length (filter is_ellipse ops) \<le> nodes n"
proof (induction n arbitrary: p sz x y)
  case 0
  have "drawFractalLayer e p sz x y (real 0) = p" by (subst drawFractalLayer.simps) simp
  then show ?case using appends_refl[of p] by auto
next
  case (Suc n)
  show ?case
  proof (cases "sz < 5")
    case True
    then have "drawFractalLayer e p sz x y (real (Suc n)) = p"
      by (subst drawFractalLayer.simps) simp
    then show ?thesis using appends_refl[of p] by auto
  next
    case False
    let ?c = "lerpc (irisColor1 e) (irisColor2 e) (map_num (real (Suc n)) 0 4 1 0)"
    let ?p1 = "ellipse x y sz sz (fillc ?c 150 p)"
    let ?n = "jmul sz (rd 0.6)" and ?o = "jmul sz (rd 0.3)"
    let ?p2 = "drawFractalLayer e ?p1 ?n (jsub x ?o) y (real n)"
    let ?p3 = "drawFractalLayer e ?p2 ?n (jadd x ?o) y (real n)"
    let ?p4 = "drawFractalLayer e ?p3 ?n x (jsub y ?o) (real n)"
    let ?p5 = "drawFractalLayer e ?p4 ?n x (jadd y ?o) (real n)"
    obtain o1 where 1: "appends p ?p1 o1" "length o1 = 4" "length (filter is_ellipse o1) = 1"
      using appends_node[of p x y sz ?c 150] by (auto simp: is_ellipse_def)
    obtain o2 where 2: "appends ?p1 ?p2 o2" "length o2 \<le> 4 * nodes n"
        "length (filter is_ellipse o2) \<le> nodes n"
      using Suc.IH[of ?p1 ?n "jsub x ?o" y] by blast
    obtain o3 where 3: "appends ?p2 ?p3 o3" "length o3 \<le> 4 * nodes n"
        "length (filter is_ellipse o3) \<le> nodes n"
      using Suc.IH[of ?p2 ?n "jadd x ?o" y] by blast
    obtain o4 where 4: "appends ?p3 ?p4 o4" "length o4 \<le> 4 * nodes n"
        "length (filter is_ellipse o4) \<le> nodes n"
      using Suc.IH[of ?p3 ?n x "jsub y ?o"] by blast
    obtain o5 where 5: "appends ?p4 ?p5 o5" "length o5 \<le> 4 * nodes n"
        "length (filter is_ellipse o5) \<le> nodes n"
      using Suc.IH[of ?p4 ?n x "jadd y ?o"] by blast
    have e: "drawFractalLayer e p sz x y (real (Suc n)) = ?p5"
      using False by (subst drawFractalLayer.simps) (simp add: Let_def)
    have a: "appends p ?p5 (o1 @ o2 @ o3 @ o4 @ o5)"
      using 1(1) 2(1) 3(1) 4(1) 5(1) by (blast intro: appends_trans)
    have "length (o1 @ o2 @ o3 @ o4 @ o5) \<le> 4 * nodes (Suc n)"
      using 1(2) 2(2) 3(2) 4(2) 5(2) by simp
    moreover have "length (filter is_ellipse (o1 @ o2 @ o3 @ o4 @ o5)) \<le> nodes (Suc n)"
      using 1(3) 2(3) 3(3) 4(3) 5(3) by simp
    ultimately show ?thesis unfolding e using a by blast
  qed
qed

lemma nodes_4: "nodes 4 = 85"
  by (simp add: eval_nat_numeral)

text \<open>
  C9. The recursive pattern ends on every input. \<open>drawFractalLayer\<close> returns at once,
  drawing nothing, when the depth is at most 0 or the size below 5; otherwise it draws
  one ellipse and calls itself four times with the depth less 1 and the size times 0.6.
  Every chain of nested calls is finite, from any size, position and depth. Started at
  a whole depth \<open>n\<close> it draws at most \<open>nodes n\<close> ellipses, the number of nodes of a
  four-way tree of depth \<open>n\<close>; \<open>drawFractalPattern\<close> starts it at depth 4, so that the
  pattern makes at most 85 ellipses, 340 calls on the surface, whatever the instance.
\<close>

theorem fractal_terminates:
  "(depth \<le> 0 \<or> sz < 5 \<longrightarrow> drawFractalLayer e p sz x y depth = p)
   \<and> (\<not> (depth \<le> 0 \<or> sz < 5) \<longrightarrow>
        drawFractalLayer e p sz x y depth =
          drawFractalLayer e (drawFractalLayer e (drawFractalLayer e (drawFractalLayer e
            (ellipse x y sz sz
               (fillc (lerpc (irisColor1 e) (irisColor2 e) (map_num depth 0 4 1 0)) 150 p))
            (jmul sz (rd 0.6)) (jsub x (jmul sz (rd 0.3))) y (depth - 1))
            (jmul sz (rd 0.6)) (jadd x (jmul sz (rd 0.3))) y (depth - 1))
            (jmul sz (rd 0.6)) x (jsub y (jmul sz (rd 0.3))) (depth - 1))
            (jmul sz (rd 0.6)) x (jadd y (jmul sz (rd 0.3))) (depth - 1))
   \<and> drawFractalLayer_dom (e, p, sz, x, y, depth)
   \<and> (n \<le> 2 ^ 53 \<longrightarrow>
        (\<exists>ops. appends p (drawFractalLayer e p sz x y (real n)) ops
               \<and> length ops \<le> 4 * nodes n \<and> length (filter is_ellipse ops) \<le> nodes n))
   \<and> drawFractalPattern e p = drawFractalLayer e p (jdiv (irisSize e) 2) 0 0 4
   \<and> (\<exists>ops. appends p (drawFractalPattern e p) ops
              \<and> length ops \<le> 340 \<and> length (filter is_ellipse ops) \<le> 85)"
proof (intro conjI impI)
  assume "depth \<le> 0 \<or> sz < 5"
  then show "drawFractalLayer e p sz x y depth = p"
    by (subst drawFractalLayer.simps) simp
next
  assume "\<not> (depth \<le> 0 \<or> sz < 5)"
  then show "drawFractalLayer e p sz x y depth =
          drawFractalLayer e (drawFractalLayer e (drawFractalLayer e (drawFractalLayer e
            (ellipse x y sz sz
               (fillc (lerpc (irisColor1 e) (irisColor2 e) (map_num depth 0 4 1 0)) 150 p))
            (jmul sz (rd 0.6)) (jsub x (jmul sz (rd 0.3))) y (depth - 1))
            (jmul sz (rd 0.6)) (jadd x (jmul sz (rd 0.3))) y (depth - 1))
            (jmul sz (rd 0.6)) x (jsub y (jmul sz (rd 0.3))) (depth - 1))
            (jmul sz (rd 0.6)) x (jadd y (jmul sz (rd 0.3))) (depth - 1)"
    by (subst drawFractalLayer.simps) (simp add: Let_def)
next
  show "drawFractalLayer_dom (e, p, sz, x, y, depth)"
    by (rule drawFractalLayer_total)
  show "\<exists>ops. appends p (drawFractalLayer e p sz x y (real n)) ops
               \<and> length ops \<le> 4 * nodes n \<and> length (filter is_ellipse ops) \<le> nodes n"
    by (rule fractal_count)
  show "drawFractalPattern e p = drawFractalLayer e p (jdiv (irisSize e) 2) 0 0 4"
    by (rule drawFractalPattern_def)
  have "real 4 = 4" by simp
  then show "\<exists>ops. appends p (drawFractalPattern e p) ops
              \<and> length ops \<le> 340 \<and> length (filter is_ellipse ops) \<le> 85"
    using fractal_count[of p e "jdiv (irisSize e) 2" 0 0 4]
    by (simp add: drawFractalPattern_def nodes_4)
qed

theorem fractal_terminates_witness:
  "((0::real) \<le> 0 \<or> (100::real) < 5)
   \<and> drawFractalLayer (blank 300 300 0)
        (new_CanvasHelper \<lparr>canvas_width = 300, canvas_height = 300, calls = []\<rparr>)
        100 0 0 0 =
       new_CanvasHelper \<lparr>canvas_width = 300, canvas_height = 300, calls = []\<rparr>
   \<and> \<not> ((1::real) \<le> 0 \<or> (8::real) < 5)
   \<and> calls (ctx (drawFractalLayer (blank 300 300 0)
        (new_CanvasHelper \<lparr>canvas_width = 300, canvas_height = 300, calls = []\<rparr>)
        8 0 0 1)) =
       [FillStyle (Rgba 0 0 0 (150 / 255)), BeginPath, EllipsePath 0 0 4 4 0 0 TWO_PI, Fill]
   \<and> (1::nat) \<le> 2 ^ 53 \<and> nodes 1 = 1"
proof -
  let ?E = "blank 300 300 0"
  let ?P = "new_CanvasHelper \<lparr>canvas_width = 300, canvas_height = 300, calls = []\<rparr>"
  note t0 = fractal_terminates[where e = ?E and p = ?P and sz = 100 and x = 0 and y = 0
      and depth = 0 and n = 1]
  note t1 = fractal_terminates[where e = ?E and p = ?P and sz = 8 and x = 0 and y = 0
      and depth = 1 and n = 1]
  from t0 have a: "drawFractalLayer ?E ?P 100 0 0 0 = ?P" by simp
  have z: "drawFractalLayer ?E q s u v 0 = q" for q s u v
    by (subst drawFractalLayer.simps) simp
  from t1 have "drawFractalLayer ?E ?P 8 0 0 1 =
      ellipse 0 0 8 8 (fillc (lerpc (irisColor1 ?E) (irisColor2 ?E) (map_num 1 0 4 1 0)) 150 ?P)"
    by (simp add: z)
  then have b: "calls (ctx (drawFractalLayer ?E ?P 8 0 0 1)) =
       [FillStyle (Rgba 0 0 0 (150 / 255)), BeginPath, EllipsePath 0 0 4 4 0 0 TWO_PI, Fill]"
    by (simp add: ellipse_def fillc_def fill_def call_def lerpc_def lerp_def blank_def
        new_CanvasHelper_def)
  from a b show ?thesis by simp
qed

end
